theory Spec2Isabelle
  imports Main "HOL-Library.Word" "HOL-Library.Signed_Division" "HOL-Library.Sublist"
begin

section \<open>The logger: data model\<close>

text \<open>
  The embedding follows \<^verbatim>\<open>logger.hpp\<close> and \<^verbatim>\<open>logger.cpp\<close> (the buffered version).
  The \<^verbatim>\<open>Logger\<close> object is a record; everything outside the object that the code
  touches (the file system, \<^verbatim>\<open>std::cout\<close>, \<^verbatim>\<open>std::cerr\<close>) is a second record, the
  \<open>world\<close>. Each member function takes both and returns both. Clock readings are arguments.
\<close>

subsection \<open>Constants of the header\<close>

type_synonym size_t = "64 word"

definition BUFFER_SIZE :: nat where "BUFFER_SIZE = 256"
definition TIME_STAMP_BUFFER :: nat where "TIME_STAMP_BUFFER = 32"
definition MAX_FILE_SIZE :: size_t where "MAX_FILE_SIZE = 32768"
definition LOG_FILE_PATH :: string where "LOG_FILE_PATH = ''./logs/logger.log''"
definition LOG_BUFFER_CAPACITY :: nat where "LOG_BUFFER_CAPACITY = 100"
definition FLUSH_INTERVAL_MS :: int where "FLUSH_INTERVAL_MS = 1000"

text \<open>\<^verbatim>\<open>static const size_t m_bufferSize = BUFFER_SIZE;\<close>\<close>

definition m_bufferSize :: nat where "m_bufferSize = BUFFER_SIZE"

text \<open>\<^verbatim>\<open>enum class LogLevel { ERR = 0, WARNING, INFO, DEBUG }\<close>; the comparisons of the
  code are comparisons of the underlying integers.\<close>

datatype LogLevel = ERR | WARNING | INFO | DEBUG

fun level_value :: "LogLevel \<Rightarrow> int" where
  "level_value ERR = 0"
| "level_value WARNING = 1"
| "level_value INFO = 2"
| "level_value DEBUG = 3"

definition newline :: string where "newline = [CHR 0x0A]"

subsection \<open>The world outside the object\<close>

text \<open>
  A file is its byte content, found under its path. Whether an operation of the file system
  succeeds is decided by the world: \<open>open_denied\<close> says which \<^verbatim>\<open>open\<close> calls fail,
  \<open>remove_error\<close> and \<open>rename_error\<close> give the error message of a failing
  \<^verbatim>\<open>std::filesystem::remove\<close> or \<^verbatim>\<open>rename\<close> (\<open>None\<close>: the call is permitted), and
  \<open>create_directories_outcome\<close> is what \<^verbatim>\<open>std::filesystem::create_directories\<close>
  does. The code calls the throwing overload of \<^verbatim>\<open>std::filesystem::exists\<close>:
  \<open>exists_error\<close> gives the \<^verbatim>\<open>what()\<close> of the \<^verbatim>\<open>filesystem_error\<close> it throws for a
  path (\<open>None\<close>: it returns, with the answer \<open>fs_exists\<close>). \<open>fs_calls\<close> records the calls
  that open, close, remove, rename or create, in the order the code makes them.
  \<open>uncaught\<close> is the exception that left a member function of the logger without being
  caught, as its caller sees it.
\<close>

datatype open_mode = App | Out

datatype mkdir_outcome = Created | NotCreated | Throws string

datatype fs_call =
    CallOpen string open_mode
  | CallClose string
  | CallRemove string
  | CallRename string string
  | CallCreateDirectories string

record world =
  files :: "string \<rightharpoonup> string"
  dirs :: "string set"
  open_denied :: "open_mode \<Rightarrow> string \<Rightarrow> bool"
  remove_error :: "string \<Rightarrow> string option"
  rename_error :: "string \<Rightarrow> string \<Rightarrow> string option"
  create_directories_outcome :: "string \<Rightarrow> mkdir_outcome"
  exists_error :: "string \<Rightarrow> string option"
  fs_calls :: "fs_call list"
  cout :: string
  cerr :: string
  uncaught :: "string option"

definition fs_exists :: "world \<Rightarrow> string \<Rightarrow> bool" where
  "fs_exists w p = (files w p \<noteq> None \<or> p \<in> dirs w)"

definition file_content :: "world \<Rightarrow> string \<Rightarrow> string" where
  "file_content w p = (case files w p of None \<Rightarrow> [] | Some c \<Rightarrow> c)"

text \<open>\<^verbatim>\<open>std::filesystem::remove(p, ec)\<close> deletes a file or an empty directory; the result
  is the error message, if any. Removing what is not there is no error.\<close>

definition fs_remove :: "string \<Rightarrow> world \<Rightarrow> string option \<times> world" where
  "fs_remove p w =
     (let w1 = w\<lparr>fs_calls := fs_calls w @ [CallRemove p]\<rparr> in
      case remove_error w p of
        Some msg \<Rightarrow> (Some msg, w1)
      | None \<Rightarrow> (None, w1\<lparr>files := (files w1)(p := None), dirs := dirs w1 - {p}\<rparr>))"

text \<open>\<^verbatim>\<open>std::filesystem::rename(from, to, ec)\<close>: fails when the world forbids it or when
  there is no file \<open>from\<close>; otherwise \<open>to\<close> is replaced by the file and \<open>from\<close> is gone.\<close>

definition fs_rename :: "string \<Rightarrow> string \<Rightarrow> world \<Rightarrow> string option \<times> world" where
  "fs_rename from to w =
     (let w1 = w\<lparr>fs_calls := fs_calls w @ [CallRename from to]\<rparr> in
      case rename_error w from to of
        Some msg \<Rightarrow> (Some msg, w1)
      | None \<Rightarrow>
          (case files w1 from of
             None \<Rightarrow> (Some ''No such file or directory'', w1)
           | Some c \<Rightarrow> (None, w1\<lparr>files := (files w1)(from := None, to \<mapsto> c)\<rparr>)))"

subsection \<open>\<^verbatim>\<open>std::ofstream\<close>\<close>

text \<open>
  The stream \<^verbatim>\<open>m_logFile\<close> is \<open>None\<close> when closed and \<open>Some p\<close> when open on the
  file at path \<open>p\<close>. Every function of the code that writes to the stream flushes or closes it
  before it returns, so a write is modelled as reaching the file at once. A write to a closed
  stream, or to a stream whose file is gone, is lost.
\<close>

definition ofstream_open :: "string \<Rightarrow> open_mode \<Rightarrow> world \<Rightarrow> string option \<times> world" where
  "ofstream_open p mode w =
     (let w1 = w\<lparr>fs_calls := fs_calls w @ [CallOpen p mode]\<rparr> in
      if open_denied w mode p then (None, w1)
      else (Some p,
            w1\<lparr>files := (files w1)(p \<mapsto> (case mode of App \<Rightarrow> file_content w1 p | Out \<Rightarrow> []))\<rparr>))"

definition ofstream_write :: "string option \<Rightarrow> string \<Rightarrow> world \<Rightarrow> world" where
  "ofstream_write h s w =
     (case h of
        None \<Rightarrow> w
      | Some p \<Rightarrow>
          (case files w p of
             None \<Rightarrow> w
           | Some c \<Rightarrow> w\<lparr>files := (files w)(p \<mapsto> c @ s)\<rparr>))"

text \<open>\<^verbatim>\<open>static_cast<size_t>(m_logFile.tellp())\<close> after the stream was positioned at the end;
  on a closed stream \<^verbatim>\<open>tellp\<close> gives \<open>-1\<close>.\<close>

definition tellp :: "string option \<Rightarrow> world \<Rightarrow> size_t" where
  "tellp h w = (case h of None \<Rightarrow> - 1 | Some p \<Rightarrow> of_nat (length (file_content w p)))"

subsection \<open>The object\<close>

record Logger =
  m_currentLevel :: LogLevel
  m_logFilePath :: string
  m_maxFileSize :: size_t
  m_initialized :: bool
  m_consoleOutput :: bool
  m_logFile :: "string option"
  m_messageBuffer :: "string list"
  m_currentFileSize :: size_t
  m_lastFlushTime :: int

text \<open>
  The constructor. \<open>steady_now\<close> is the reading of \<^verbatim>\<open>std::chrono::steady_clock\<close>, in
  nanoseconds. \<^verbatim>\<open>m_currentFileSize\<close> has no initialiser; the only instance is the
  function-local static of \<^verbatim>\<open>getInstance\<close>, which is zero-initialised first.
\<close>

definition Logger_ctor :: "int \<Rightarrow> Logger" where
  "Logger_ctor steady_now =
     \<lparr>m_currentLevel = INFO,
      m_logFilePath = LOG_FILE_PATH,
      m_maxFileSize = MAX_FILE_SIZE,
      m_initialized = False,
      m_consoleOutput = True,
      m_logFile = None,
      m_messageBuffer = [],
      m_currentFileSize = 0,
      m_lastFlushTime = steady_now\<rparr>"

section \<open>Formatting\<close>

text \<open>\<^verbatim>\<open>snprintf\<close> and \<^verbatim>\<open>vsnprintf\<close> into a buffer of \<open>n\<close> bytes keep at most \<open>n - 1\<close>
  bytes of the rendering (the last byte is the terminator). The rendering of the format and
  its arguments is an argument of the model.\<close>

definition snprintf :: "nat \<Rightarrow> string \<Rightarrow> string" where
  "snprintf n rendering = take (n - 1) rendering"

definition vsnprintf :: "nat \<Rightarrow> string \<Rightarrow> string" where
  "vsnprintf n rendering = take (n - 1) rendering"

definition digit_char :: "nat \<Rightarrow> char" where
  "digit_char d = ''0123456789'' ! d"

fun dec_digits :: "nat \<Rightarrow> string" where
  "dec_digits n = (if n < 10 then [digit_char n] else dec_digits (n div 10) @ [digit_char (n mod 10)])"

declare dec_digits.simps [simp del]

text \<open>The conversions \<^verbatim>\<open>%04d\<close>, \<^verbatim>\<open>%02d\<close> and \<^verbatim>\<open>%03ld\<close>: decimal, padded with zeros to
  the width, the sign counting towards the width.\<close>

definition fmt_0d :: "nat \<Rightarrow> int \<Rightarrow> string" where
  "fmt_0d width n =
     (if n < 0
      then (let ds = dec_digits (nat (- n)) in
            ''-'' @ replicate (width - 1 - length ds) (CHR ''0'') @ ds)
      else (let ds = dec_digits (nat n) in
            replicate (width - length ds) (CHR ''0'') @ ds))"

text \<open>A reading of \<^verbatim>\<open>std::chrono::system_clock\<close>: the time since the epoch in the clock's
  ticks (nanoseconds, as in libstdc++), and the broken-down local time that
  \<^verbatim>\<open>localtime_r\<close> gives for it.\<close>

record tm =
  tm_year :: int
  tm_mon :: int
  tm_mday :: int
  tm_hour :: int
  tm_min :: int
  tm_sec :: int

record clock_reading =
  time_since_epoch :: int
  local_tm :: tm

text \<open>\<^verbatim>\<open>duration_cast\<close> and \<^verbatim>\<open>%\<close> truncate towards zero.\<close>

definition getTimestamp :: "clock_reading \<Rightarrow> nat \<Rightarrow> string" where
  "getTimestamp now bufferSize =
     (let now_ms = (time_since_epoch now sdiv 1000) smod 1000;
          now_tm = local_tm now
      in snprintf bufferSize
           (fmt_0d 4 (tm_year now_tm + 1900) @ ''-'' @
            fmt_0d 2 (tm_mon now_tm + 1) @ ''-'' @
            fmt_0d 2 (tm_mday now_tm) @ '' '' @
            fmt_0d 2 (tm_hour now_tm) @ '':'' @
            fmt_0d 2 (tm_min now_tm) @ '':'' @
            fmt_0d 2 (tm_sec now_tm) @ ''.'' @
            fmt_0d 3 now_ms))"

fun logLevelToString :: "LogLevel \<Rightarrow> string" where
  "logLevelToString ERR = ''ERROR''"
| "logLevelToString WARNING = ''WARN ''"
| "logLevelToString INFO = ''INFO ''"
| "logLevelToString DEBUG = ''DEBUG''"

section \<open>The buffered writer\<close>

definition openLogFile :: "Logger \<Rightarrow> world \<Rightarrow> bool \<times> Logger \<times> world" where
  "openLogFile L w =
     (if m_logFile L \<noteq> None then (True, L, w)
      else
        (case ofstream_open (m_logFilePath L) App w of (h1, w1) \<Rightarrow>
           (case (if h1 = None then ofstream_open (m_logFilePath L) Out w1 else (h1, w1)) of
              (h2, w2) \<Rightarrow>
                if h2 = None then (False, L, w2)
                else (True, L\<lparr>m_logFile := h2, m_currentFileSize := tellp h2 w2\<rparr>, w2))))"

definition closeLogFile :: "Logger \<Rightarrow> world \<Rightarrow> Logger \<times> world" where
  "closeLogFile L w =
     (case m_logFile L of
        None \<Rightarrow> (L, w)
      | Some p \<Rightarrow> (L\<lparr>m_logFile := None\<rparr>, w\<lparr>fs_calls := fs_calls w @ [CallClose p]\<rparr>))"

text \<open>The loop \<^verbatim>\<open>for (const auto &message : m_messageBuffer) m_logFile << message;\<close>\<close>

fun write_messages :: "string option \<Rightarrow> string list \<Rightarrow> world \<Rightarrow> world" where
  "write_messages h [] w = w"
| "write_messages h (message # rest) w = write_messages h rest (ofstream_write h message w)"

definition flushBuffer :: "Logger \<Rightarrow> world \<Rightarrow> Logger \<times> world" where
  "flushBuffer L w =
     (let w1 = write_messages (m_logFile L) (m_messageBuffer L) w
      in (L\<lparr>m_messageBuffer := []\<rparr>, w1))"

text \<open>\<^verbatim>\<open>flush\<close> is \<^verbatim>\<open>flushBuffer\<close> under the lock.\<close>

definition flush :: "Logger \<Rightarrow> world \<Rightarrow> Logger \<times> world" where
  "flush L w = flushBuffer L w"

text \<open>
  \<^verbatim>\<open>rotateLogFile\<close>. The first component of the result is the exception that leaves the
  function: \<^verbatim>\<open>std::filesystem::exists(backupFileName)\<close> is not inside a \<^verbatim>\<open>try\<close>, so when
  it throws nothing more of the function is executed.
\<close>

definition rotateLogFile :: "Logger \<Rightarrow> world \<Rightarrow> string option \<times> world" where
  "rotateLogFile L w =
     (let backupFileName = m_logFilePath L @ ''.bak'' in
      case exists_error w backupFileName of
        Some what \<Rightarrow> (Some what, w)
      | None \<Rightarrow>
          (let w1 = (if fs_exists w backupFileName
                     then (case fs_remove backupFileName w of
                             (None, w') \<Rightarrow> w'
                           | (Some msg, w') \<Rightarrow>
                               w'\<lparr>cerr := cerr w' @ ''Failed to remove backup file: '' @ msg
                                             @ newline\<rparr>)
                     else w)
           in case fs_rename (m_logFilePath L) backupFileName w1 of
                (None, w') \<Rightarrow> (None, w')
              | (Some msg, w') \<Rightarrow>
                  (None, w'\<lparr>cerr := cerr w' @ ''Failed to rename log file: '' @ msg @ newline\<rparr>)))"

text \<open>\<^verbatim>\<open>checkRotation\<close> has no handler either: an exception of \<^verbatim>\<open>rotateLogFile\<close> passes
  through it, and the file is neither opened again nor the counter reset.\<close>

definition checkRotation ::
  "size_t \<Rightarrow> Logger \<Rightarrow> world \<Rightarrow> string option \<times> Logger \<times> world" where
  "checkRotation messageSize L w =
     (if m_currentFileSize L + messageSize > m_maxFileSize L
      then
        (let w1 = write_messages (m_logFile L) (m_messageBuffer L) w;
             L1 = L\<lparr>m_messageBuffer := []\<rparr>
         in case closeLogFile L1 w1 of (L2, w2) \<Rightarrow>
              (case rotateLogFile L2 w2 of
                 (Some what, w3) \<Rightarrow> (Some what, L2, w3)
               | (None, w3) \<Rightarrow>
                   (case openLogFile L2 w3 of (ok, L3, w4) \<Rightarrow>
                      (None, L3\<lparr>m_currentFileSize := 0\<rparr>, w4))))
      else (None, L, w))"

text \<open>
  \<^verbatim>\<open>m_messageBuffer.push_back(std::move(logEntry))\<close> move-constructs the new element from
  \<^verbatim>\<open>logEntry\<close>. The result is the vector and the string left behind in the variable: the
  move constructor of \<^verbatim>\<open>std::string\<close> leaves its source empty (libstdc++, which the
  project's build uses, sets the source's length to 0 for short and for long strings alike;
  libc++ and the Microsoft library empty the source too).
\<close>

definition push_back_move :: "string list \<Rightarrow> string \<Rightarrow> string list \<times> string" where
  "push_back_move v s = (v @ [s], [])"

section \<open>The facade\<close>

text \<open>\<^verbatim>\<open>path.parent_path()\<close> for a path in the generic format: what precedes the last
  separator, without trailing separators; the root for a file directly under it.\<close>

definition parent_path :: "string \<Rightarrow> string" where
  "parent_path p =
     (if CHR ''/'' \<notin> set p then []
      else (let d = rev (dropWhile (\<lambda>c. c = CHR ''/'') (dropWhile (\<lambda>c. c \<noteq> CHR ''/'') (rev p)))
            in if d = [] then ''/'' else d))"

definition createLogDirectory :: "string \<Rightarrow> world \<Rightarrow> bool \<times> world" where
  "createLogDirectory filePath w =
     (let dir = parent_path filePath in
      if dir = [] then (True, w)
      else
        (case exists_error w dir of
           Some what \<Rightarrow>
             (False, w\<lparr>cerr := cerr w @ ''Error creating directory: '' @ what @ newline\<rparr>)
         | None \<Rightarrow>
             if \<not> fs_exists w dir
             then (let w1 = w\<lparr>fs_calls := fs_calls w @ [CallCreateDirectories dir]\<rparr> in
                   case create_directories_outcome w dir of
                     Created \<Rightarrow> (True, w1\<lparr>dirs := insert dir (dirs w1)\<rparr>)
                   | NotCreated \<Rightarrow> (False, w1)
                   | Throws what \<Rightarrow>
                       (False, w1\<lparr>cerr := cerr w1 @ ''Error creating directory: '' @ what
                                          @ newline\<rparr>))
             else (True, w)))"

definition init ::
  "string \<Rightarrow> LogLevel \<Rightarrow> bool \<Rightarrow> size_t \<Rightarrow> clock_reading \<Rightarrow> Logger \<Rightarrow> world \<Rightarrow> bool \<times> Logger \<times> world" where
  "init logFilePath level consoleOutput maxFileSize sys_now L w =
     (if m_initialized L then (True, L, w)
      else
        (let L1 = L\<lparr>m_logFilePath := logFilePath,
                     m_currentLevel := level,
                     m_consoleOutput := consoleOutput,
                     m_maxFileSize := maxFileSize\<rparr>
         in case createLogDirectory (m_logFilePath L1) w of (made, w1) \<Rightarrow>
              if \<not> made
              then (False, L1,
                    w1\<lparr>cerr := cerr w1 @ ''Failed to create log directory for: '' @
                                 m_logFilePath L1 @ newline\<rparr>)
              else
                (case openLogFile L1 w1 of (opened, L2, w2) \<Rightarrow>
                   if \<not> opened
                   then (False, L2,
                         w2\<lparr>cerr := cerr w2 @ ''Failed to initialize logger file: '' @
                                      m_logFilePath L2 @ newline\<rparr>)
                   else
                     (let L3 = L2\<lparr>m_currentFileSize := tellp (m_logFile L2) w2\<rparr>;
                          timestampBuffer = getTimestamp sys_now 64;
                          initMessage = ''['' @ timestampBuffer @ ''] [INFO] Logger initialized'' @ newline;
                          w3 = ofstream_write (m_logFile L3) initMessage w2;
                          L4 = L3\<lparr>m_currentFileSize :=
                                    m_currentFileSize L3 + of_nat (length initMessage)\<rparr>
                      in (True, L4\<lparr>m_initialized := True\<rparr>, w3)))))"

text \<open>
  \<^verbatim>\<open>log\<close>. \<open>rendering\<close> is what the format and its arguments render to, \<open>sys_now\<close> the
  reading of the system clock taken by \<^verbatim>\<open>getTimestamp\<close>, \<open>steady_now\<close> the reading of
  the steady clock (nanoseconds) taken after the entry is stored. The stream
  \<^verbatim>\<open>logStream\<close> is only the concatenation of what is put into it. \<^verbatim>\<open>log\<close> has no
  handler: an exception of \<^verbatim>\<open>checkRotation\<close> leaves it at once (the entry is not stored,
  nothing is flushed, \<^verbatim>\<open>unlockMutex\<close> is not reached) and reaches the caller.
\<close>

definition log ::
  "LogLevel \<Rightarrow> string \<Rightarrow> clock_reading \<Rightarrow> int \<Rightarrow> Logger \<Rightarrow> world \<Rightarrow> Logger \<times> world" where
  "log level rendering sys_now steady_now L w =
     (if \<not> m_initialized L \<or> level_value level > level_value (m_currentLevel L) then (L, w)
      else
        (let timestampBuffer = getTimestamp sys_now TIME_STAMP_BUFFER;
             buffer = vsnprintf m_bufferSize rendering;
             logEntry = ''['' @ timestampBuffer @ ''] ['' @ logLevelToString level @ ''] '' @
                        buffer @ newline;
             w0 = (if m_consoleOutput L then w\<lparr>cout := cout w @ logEntry\<rparr> else w)
         in case openLogFile L w0 of (opened, L1, w1) \<Rightarrow>
              if \<not> opened then (L1, w1)
              else
                (case checkRotation (of_nat (length logEntry)) L1 w1 of
                   (Some what, L2, w2) \<Rightarrow> (L2, w2\<lparr>uncaught := Some what\<rparr>)
                 | (None, L2, w2) \<Rightarrow>
                   (case push_back_move (m_messageBuffer L2) logEntry of (v, logEntry') \<Rightarrow>
                      (let L3 = L2\<lparr>m_messageBuffer := v\<rparr>;
                           L4 = L3\<lparr>m_currentFileSize :=
                                     m_currentFileSize L3 + of_nat (length logEntry')\<rparr>;
                           elapsedMs = (steady_now - m_lastFlushTime L4) sdiv 1000000
                       in if length (m_messageBuffer L4) \<ge> LOG_BUFFER_CAPACITY
                             \<or> elapsedMs \<ge> FLUSH_INTERVAL_MS
                          then flushBuffer L4 w2
                          else (L4, w2))))))"

text \<open>The four wrappers render into their own buffer and pass it on with the format
  \<^verbatim>\<open>"%s"\<close>, whose rendering is the buffer itself.\<close>

definition error :: "string \<Rightarrow> clock_reading \<Rightarrow> int \<Rightarrow> Logger \<Rightarrow> world \<Rightarrow> Logger \<times> world" where
  "error rendering sys_now steady_now L w =
     (if \<not> m_initialized L \<or> level_value ERR > level_value (m_currentLevel L) then (L, w)
      else (let buffer = vsnprintf m_bufferSize rendering
            in log ERR buffer sys_now steady_now L w))"

definition warning :: "string \<Rightarrow> clock_reading \<Rightarrow> int \<Rightarrow> Logger \<Rightarrow> world \<Rightarrow> Logger \<times> world" where
  "warning rendering sys_now steady_now L w =
     (if \<not> m_initialized L \<or> level_value WARNING > level_value (m_currentLevel L) then (L, w)
      else (let buffer = vsnprintf m_bufferSize rendering
            in log WARNING buffer sys_now steady_now L w))"

definition info :: "string \<Rightarrow> clock_reading \<Rightarrow> int \<Rightarrow> Logger \<Rightarrow> world \<Rightarrow> Logger \<times> world" where
  "info rendering sys_now steady_now L w =
     (if \<not> m_initialized L \<or> level_value INFO > level_value (m_currentLevel L) then (L, w)
      else (let buffer = vsnprintf m_bufferSize rendering
            in log INFO buffer sys_now steady_now L w))"

definition debug :: "string \<Rightarrow> clock_reading \<Rightarrow> int \<Rightarrow> Logger \<Rightarrow> world \<Rightarrow> Logger \<times> world" where
  "debug rendering sys_now steady_now L w =
     (if \<not> m_initialized L \<or> level_value DEBUG > level_value (m_currentLevel L) then (L, w)
      else (let buffer = vsnprintf m_bufferSize rendering
            in log DEBUG buffer sys_now steady_now L w))"

definition setLevel :: "LogLevel \<Rightarrow> Logger \<Rightarrow> Logger" where
  "setLevel level L = L\<lparr>m_currentLevel := level\<rparr>"

definition setConsoleOutput :: "bool \<Rightarrow> Logger \<Rightarrow> Logger" where
  "setConsoleOutput enable L = L\<lparr>m_consoleOutput := enable\<rparr>"

text \<open>The destructor.\<close>

definition Logger_dtor :: "clock_reading \<Rightarrow> Logger \<Rightarrow> world \<Rightarrow> Logger \<times> world" where
  "Logger_dtor sys_now L w =
     (if m_initialized L
      then
        (let timestampBuffer = getTimestamp sys_now TIME_STAMP_BUFFER
         in case flushBuffer L w of (L1, w1) \<Rightarrow>
              (let shutdownMsg = ''['' @ timestampBuffer @ ''] [INFO] Logger shutdown'' @ newline;
                   w2 = ofstream_write (m_logFile L1) shutdownMsg w1
               in closeLogFile L1 w2))
      else (L, w))"

section \<open>Notions used in the statements\<close>

text \<open>The line the specification prescribes:
  \<^verbatim>\<open>[YYYY-MM-DD HH:MM:SS.mmm] [LEVEL] <message>\<close> and a newline, for a given timestamp text,
  level tag and message text.\<close>

definition spec_line :: "string \<Rightarrow> string \<Rightarrow> string \<Rightarrow> string" where
  "spec_line stamp tag message = ''['' @ stamp @ ''] ['' @ tag @ ''] '' @ message @ newline"

text \<open>What is in the log file or waiting to be written to it.\<close>

definition on_disk_and_pending :: "Logger \<Rightarrow> world \<Rightarrow> string" where
  "on_disk_and_pending L w = file_content w (m_logFilePath L) @ concat (m_messageBuffer L)"

text \<open>The stream is open on the log file, the file is there, the file system can tell
  whether the backup exists, and the path can be opened again for appending.\<close>

definition stream_ready :: "Logger \<Rightarrow> world \<Rightarrow> bool" where
  "stream_ready L w =
     (m_logFile L = Some (m_logFilePath L) \<and> files w (m_logFilePath L) \<noteq> None
      \<and> exists_error w (m_logFilePath L @ ''.bak'') = None
      \<and> \<not> open_denied w App (m_logFilePath L))"

text \<open>The stream is open on the log file, the file is there, and the file system can tell
  whether the backup exists and lets the backup be removed, the log file be renamed to the
  backup name (which is not a directory) and the path be opened again.\<close>

definition rotation_permitted :: "Logger \<Rightarrow> world \<Rightarrow> bool" where
  "rotation_permitted L w =
     (m_logFile L = Some (m_logFilePath L) \<and> files w (m_logFilePath L) \<noteq> None
      \<and> exists_error w (m_logFilePath L @ ''.bak'') = None
      \<and> remove_error w (m_logFilePath L @ ''.bak'') = None
      \<and> rename_error w (m_logFilePath L) (m_logFilePath L @ ''.bak'') = None
      \<and> m_logFilePath L @ ''.bak'' \<notin> dirs w
      \<and> \<not> open_denied w App (m_logFilePath L))"

text \<open>
  Two outcomes of storing a line, as seen in the files and the buffer. Rotated: what the log
  file held, followed by the lines that were pending, is now the content of the backup file,
  and the log file and the buffer together hold the new line and nothing else. Appended: the
  backup file is as it was, and the log file and the buffer together hold what they held,
  followed by the new line.
\<close>

definition rotated :: "Logger \<Rightarrow> world \<Rightarrow> string \<Rightarrow> Logger \<times> world \<Rightarrow> bool" where
  "rotated L w line s' =
     (files (snd s') (m_logFilePath L @ ''.bak'')
        = Some (file_content w (m_logFilePath L) @ concat (m_messageBuffer L))
      \<and> on_disk_and_pending (fst s') (snd s') = line)"

definition appended :: "Logger \<Rightarrow> world \<Rightarrow> string \<Rightarrow> Logger \<times> world \<Rightarrow> bool" where
  "appended L w line s' =
     (files (snd s') (m_logFilePath L @ ''.bak'') = files w (m_logFilePath L @ ''.bak'')
      \<and> on_disk_and_pending (fst s') (snd s') = on_disk_and_pending L w @ line)"

text \<open>The part of \<^verbatim>\<open>log\<close> after the line is composed and mirrored to the console: open,
  rotation check, store, flush check. Lemma \<open>log_admitted\<close> shows that \<^verbatim>\<open>log\<close> is this.\<close>

definition store_line :: "string \<Rightarrow> int \<Rightarrow> Logger \<Rightarrow> world \<Rightarrow> Logger \<times> world" where
  "store_line line t L w0 =
     (let s1 = openLogFile L w0 in
      if \<not> fst s1 then snd s1
      else
        (let r2 = checkRotation (of_nat (length line)) (fst (snd s1)) (snd (snd s1));
             s2 = snd r2;
             L4 = (fst s2)\<lparr>m_messageBuffer := m_messageBuffer (fst s2) @ [line]\<rparr>
         in if fst r2 \<noteq> None then (fst s2, (snd s2)\<lparr>uncaught := fst r2\<rparr>)
            else if length (m_messageBuffer L4) \<ge> LOG_BUFFER_CAPACITY
               \<or> (t - m_lastFlushTime L4) sdiv 1000000 \<ge> FLUSH_INTERVAL_MS
            then flushBuffer L4 (snd s2) else (L4, snd s2)))"

section \<open>Concrete inputs\<close>

definition example_world :: world where
  "example_world =
     \<lparr>files = Map.empty, dirs = {''./logs''},
      open_denied = (\<lambda>_ _. False), remove_error = (\<lambda>_. None),
      rename_error = (\<lambda>_ _. None), create_directories_outcome = (\<lambda>_. Created),
      exists_error = (\<lambda>_. None), fs_calls = [], cout = [], cerr = [], uncaught = None\<rparr>"

text \<open>2024-01-02 03:04:05 local time, 234 milliseconds and 567 microseconds into the second.\<close>

definition example_clock :: clock_reading where
  "example_clock =
     \<lparr>time_since_epoch = 1704164645234567891,
      local_tm = \<lparr>tm_year = 124, tm_mon = 0, tm_mday = 2, tm_hour = 3, tm_min = 4, tm_sec = 5\<rparr>\<rparr>"

definition example_logger :: Logger where
  "example_logger =
     \<lparr>m_currentLevel = INFO, m_logFilePath = ''app.log'', m_maxFileSize = 200,
      m_initialized = True, m_consoleOutput = True, m_logFile = Some ''app.log'',
      m_messageBuffer = [''one'', ''two''], m_currentFileSize = 4, m_lastFlushTime = 0\<rparr>"

definition example_disk :: world where
  "example_disk = example_world\<lparr>files := [''app.log'' \<mapsto> ''zero'']\<rparr>"

definition example_disk_with_backup :: world where
  "example_disk_with_backup =
     example_world\<lparr>files := [''app.log'' \<mapsto> ''zero'', ''app.log.bak'' \<mapsto> ''old'']\<rparr>"

text \<open>A file system on which asking whether the backup exists fails.\<close>

definition example_disk_no_answer :: world where
  "example_disk_no_answer =
     example_disk\<lparr>exists_error :=
       (\<lambda>p. if p = ''app.log.bak'' then Some ''File name too long'' else None)\<rparr>"

definition example_world_no_answer :: world where
  "example_world_no_answer =
     example_world\<lparr>exists_error :=
       (\<lambda>p. if p = ''app.log.bak'' then Some ''File name too long'' else None)\<rparr>"

text \<open>A logger constructed at steady-clock time 0 and initialised on an empty file system.\<close>

definition started :: "bool \<times> Logger \<times> world" where
  "started = init ''app.log'' INFO True 200 example_clock (Logger_ctor 0) example_world"

definition started_logger :: Logger where "started_logger = fst (snd started)"

definition started_world :: world where "started_world = snd (snd started)"

text \<open>The same logger after a first message, logged 1500 ms after the construction.\<close>

definition after_first :: "Logger \<times> world" where
  "after_first = log INFO ''first'' example_clock 1500000000 started_logger started_world"

section \<open>The concrete inputs, evaluated\<close>

lemma example_stamp: "getTimestamp example_clock TIME_STAMP_BUFFER = ''2024-01-02 03:04:05.567''"
  by code_simp

lemma example_logger_fields:
  "m_initialized example_logger" "m_currentLevel example_logger = INFO"
  "m_consoleOutput example_logger" "m_logFile example_logger = Some ''app.log''"
  "m_logFilePath example_logger = ''app.log''" "m_messageBuffer example_logger = [''one'', ''two'']"
  "m_currentFileSize example_logger = 4" "m_maxFileSize example_logger = 200"
  "m_lastFlushTime example_logger = 0"
  by (simp_all add: example_logger_def)

lemma example_disk_fields:
  "files example_disk ''app.log'' = Some ''zero''" "files example_disk ''app.log.bak'' = None"
  "cout example_disk = []" "fs_calls example_disk = []" "cerr example_disk = []"
  "remove_error example_disk p = None" "rename_error example_disk p q = None"
  "\<not> open_denied example_disk m p" "dirs example_disk = {''./logs''}"
  "exists_error example_disk p = None" "uncaught example_disk = None"
  by (simp_all add: example_disk_def example_world_def)

lemma example_backup_fields:
  "files example_disk_with_backup ''app.log'' = Some ''zero''"
  "files example_disk_with_backup ''app.log.bak'' = Some ''old''"
  "fs_calls example_disk_with_backup = []" "dirs example_disk_with_backup = {''./logs''}"
  "remove_error example_disk_with_backup p = None"
  "rename_error example_disk_with_backup p q = None"
  "\<not> open_denied example_disk_with_backup m p"
  "exists_error example_disk_with_backup p = None"
  by (simp_all add: example_disk_with_backup_def example_world_def)

lemma example_no_answer_fields:
  "files example_disk_no_answer ''app.log'' = Some ''zero''"
  "files example_disk_no_answer ''app.log.bak'' = None"
  "exists_error example_disk_no_answer ''app.log.bak'' = Some ''File name too long''"
  "uncaught example_disk_no_answer = None"
  by (simp_all add: example_disk_no_answer_def example_disk_def example_world_def)

lemma example_ready: "stream_ready example_logger example_disk"
  by (simp add: stream_ready_def example_logger_fields example_disk_fields)

lemma example_line_length:
  "length (spec_line (getTimestamp example_clock TIME_STAMP_BUFFER) ''WARN ''
             (vsnprintf m_bufferSize ''x'')) = 36"
  by (simp add: example_stamp spec_line_def vsnprintf_def newline_def m_bufferSize_def
        BUFFER_SIZE_def)

lemma started_logger_eval:
  "started_logger =
     \<lparr>m_currentLevel = INFO, m_logFilePath = ''app.log'', m_maxFileSize = 200,
      m_initialized = True, m_consoleOutput = True, m_logFile = Some ''app.log'',
      m_messageBuffer = [], m_currentFileSize = 52, m_lastFlushTime = 0\<rparr>"
  by code_simp

lemma started_fields:
  "m_initialized started_logger" "m_currentLevel started_logger = INFO"
  "m_logFile started_logger = Some ''app.log''" "m_currentFileSize started_logger = 52"
  "m_maxFileSize started_logger = 200" "m_lastFlushTime started_logger = 0"
  "m_messageBuffer started_logger = []"
  by (simp_all add: started_logger_eval)

lemma started_ok: "fst started" "\<not> m_initialized (Logger_ctor 0)"
  by code_simp+

lemma started_stored: "length (on_disk_and_pending started_logger started_world) = 52"
  by code_simp

lemma hello_line_length:
  "length (spec_line (getTimestamp example_clock TIME_STAMP_BUFFER) ''INFO ''
             (vsnprintf m_bufferSize ''hello'')) = 40"
  by (simp add: example_stamp spec_line_def vsnprintf_def newline_def m_bufferSize_def
        BUFFER_SIZE_def)

lemma hello_stored:
  "length (on_disk_and_pending
             (fst (log INFO ''hello'' example_clock 5 started_logger started_world))
             (snd (log INFO ''hello'' example_clock 5 started_logger started_world))) = 92"
  by code_simp

lemma after_first_eval:
  "fst after_first =
     \<lparr>m_currentLevel = INFO, m_logFilePath = ''app.log'', m_maxFileSize = 200,
      m_initialized = True, m_consoleOutput = True, m_logFile = Some ''app.log'',
      m_messageBuffer = [], m_currentFileSize = 52, m_lastFlushTime = 0\<rparr>"
  by code_simp

lemma after_first_fields:
  "m_initialized (fst after_first)" "m_currentLevel (fst after_first) = INFO"
  "m_logFile (fst after_first) = Some ''app.log''" "m_lastFlushTime (fst after_first) = 0"
  "m_messageBuffer (fst after_first) = []"
  by (simp_all add: after_first_eval)

section \<open>Draining the buffer\<close>

lemma write_messages_open:
  "files w p = Some c \<Longrightarrow>
   write_messages (Some p) ms w = w\<lparr>files := (files w)(p \<mapsto> c @ concat ms)\<rparr>"
proof (induction ms arbitrary: w c)
  case Nil
  then show ?case by (simp add: map_upd_triv)
next
  case (Cons m ms)
  have "files (ofstream_write (Some p) m w) p = Some (c @ m)"
    using Cons.prems by (simp add: ofstream_write_def)
  from Cons.IH [OF this] show ?case
    using Cons.prems by (simp add: ofstream_write_def cong: if_cong)
qed

lemma write_messages_closed: "write_messages None ms w = w"
  by (induction ms arbitrary: w) (simp_all add: ofstream_write_def)

text \<open>
  C1. \<^verbatim>\<open>flushBuffer\<close> on a stream that is open on an existing file appends the pending
  lines to the file in the order of the buffer, one after the other, and empties the buffer;
  with an empty buffer it changes neither the object nor the world.
\<close>

theorem flushBuffer_drains_in_order:
  "(m_logFile L = Some p \<and> files w p = Some c \<longrightarrow>
      flushBuffer L w =
        (L\<lparr>m_messageBuffer := []\<rparr>,
         w\<lparr>files := (files w)(p \<mapsto> c @ concat (m_messageBuffer L))\<rparr>))
   \<and> (m_messageBuffer L = [] \<longrightarrow> flushBuffer L w = (L, w))"
  by (simp add: flushBuffer_def write_messages_open)

theorem flushBuffer_drains_in_order_witness:
  "m_logFile example_logger = Some ''app.log''
   \<and> files example_disk ''app.log'' = Some ''zero''
   \<and> files (snd (flushBuffer example_logger example_disk)) ''app.log'' = Some ''zeroonetwo''
   \<and> m_messageBuffer (fst (flushBuffer example_logger example_disk)) = []
   \<and> m_messageBuffer (Logger_ctor 0) = []
   \<and> flushBuffer (Logger_ctor 0) example_world = (Logger_ctor 0, example_world)"
  using flushBuffer_drains_in_order [of example_logger "''app.log''" example_disk "''zero''"]
        flushBuffer_drains_in_order [of "Logger_ctor 0" "''app.log''" example_world "''zero''"]
  by (simp add: example_logger_def example_disk_def example_world_def Logger_ctor_def)

section \<open>What the writer functions leave unchanged\<close>

lemma ofstream_write_frame:
  "cout (ofstream_write h s w) = cout w"
  "cerr (ofstream_write h s w) = cerr w"
  "fs_calls (ofstream_write h s w) = fs_calls w"
  "open_denied (ofstream_write h s w) = open_denied w"
  "remove_error (ofstream_write h s w) = remove_error w"
  "rename_error (ofstream_write h s w) = rename_error w"
  "exists_error (ofstream_write h s w) = exists_error w"
  "dirs (ofstream_write h s w) = dirs w"
  "uncaught (ofstream_write h s w) = uncaught w"
  by (simp_all add: ofstream_write_def split: option.splits)

lemma write_messages_frame:
  "cout (write_messages h ms w) = cout w"
  "cerr (write_messages h ms w) = cerr w"
  "fs_calls (write_messages h ms w) = fs_calls w"
  "open_denied (write_messages h ms w) = open_denied w"
  "remove_error (write_messages h ms w) = remove_error w"
  "rename_error (write_messages h ms w) = rename_error w"
  "exists_error (write_messages h ms w) = exists_error w"
  "dirs (write_messages h ms w) = dirs w"
  "uncaught (write_messages h ms w) = uncaught w"
  by (induction ms arbitrary: w; simp add: ofstream_write_frame)+

lemma openLogFile_already_open: "m_logFile L \<noteq> None \<Longrightarrow> openLogFile L w = (True, L, w)"
  by (simp add: openLogFile_def)

lemma openLogFile_frame:
  "cout (snd (snd (openLogFile L w))) = cout w"
  "cerr (snd (snd (openLogFile L w))) = cerr w"
  "open_denied (snd (snd (openLogFile L w))) = open_denied w"
  "exists_error (snd (snd (openLogFile L w))) = exists_error w"
  "uncaught (snd (snd (openLogFile L w))) = uncaught w"
  by (simp_all add: openLogFile_def ofstream_open_def Let_def split: prod.splits)

lemma openLogFile_fields:
  "m_initialized (fst (snd (openLogFile L w))) = m_initialized L"
  "m_currentLevel (fst (snd (openLogFile L w))) = m_currentLevel L"
  "m_consoleOutput (fst (snd (openLogFile L w))) = m_consoleOutput L"
  "m_logFilePath (fst (snd (openLogFile L w))) = m_logFilePath L"
  "m_maxFileSize (fst (snd (openLogFile L w))) = m_maxFileSize L"
  "m_messageBuffer (fst (snd (openLogFile L w))) = m_messageBuffer L"
  "m_lastFlushTime (fst (snd (openLogFile L w))) = m_lastFlushTime L"
  by (simp_all add: openLogFile_def ofstream_open_def Let_def split: prod.splits)

lemma rotateLogFile_frame:
  "cout (snd (rotateLogFile L w)) = cout w"
  "open_denied (snd (rotateLogFile L w)) = open_denied w"
  "exists_error (snd (rotateLogFile L w)) = exists_error w"
  "uncaught (snd (rotateLogFile L w)) = uncaught w"
  by (simp_all add: rotateLogFile_def fs_remove_def fs_rename_def Let_def
        split: prod.splits option.splits)

lemma rotateLogFile_throws:
  "exists_error w (m_logFilePath L @ ''.bak'') = Some what \<Longrightarrow>
   rotateLogFile L w = (Some what, w)"
  by (simp add: rotateLogFile_def)

lemma rotateLogFile_returns:
  "exists_error w (m_logFilePath L @ ''.bak'') = None \<Longrightarrow> fst (rotateLogFile L w) = None"
  by (simp add: rotateLogFile_def fs_remove_def fs_rename_def Let_def
        split: prod.splits option.splits)

lemma closeLogFile_frame:
  "cout (snd (closeLogFile L w)) = cout w"
  "cerr (snd (closeLogFile L w)) = cerr w"
  "files (snd (closeLogFile L w)) = files w"
  "open_denied (snd (closeLogFile L w)) = open_denied w"
  "remove_error (snd (closeLogFile L w)) = remove_error w"
  "rename_error (snd (closeLogFile L w)) = rename_error w"
  "exists_error (snd (closeLogFile L w)) = exists_error w"
  "dirs (snd (closeLogFile L w)) = dirs w"
  "uncaught (snd (closeLogFile L w)) = uncaught w"
  by (simp_all add: closeLogFile_def split: option.splits)

lemma closeLogFile_fields:
  "m_logFile (fst (closeLogFile L w)) = None"
  "m_logFilePath (fst (closeLogFile L w)) = m_logFilePath L"
  "m_messageBuffer (fst (closeLogFile L w)) = m_messageBuffer L"
  "m_lastFlushTime (fst (closeLogFile L w)) = m_lastFlushTime L"
  "m_maxFileSize (fst (closeLogFile L w)) = m_maxFileSize L"
  "m_currentFileSize (fst (closeLogFile L w)) = m_currentFileSize L"
  "m_initialized (fst (closeLogFile L w)) = m_initialized L"
  "m_currentLevel (fst (closeLogFile L w)) = m_currentLevel L"
  "m_consoleOutput (fst (closeLogFile L w)) = m_consoleOutput L"
  by (simp_all add: closeLogFile_def split: option.splits)

lemma checkRotation_unfold:
  "checkRotation n L w =
     (if m_currentFileSize L + n > m_maxFileSize L
      then (let s2 = closeLogFile (L\<lparr>m_messageBuffer := []\<rparr>)
                       (write_messages (m_logFile L) (m_messageBuffer L) w);
                r3 = rotateLogFile (fst s2) (snd s2)
            in if fst r3 \<noteq> None then (fst r3, fst s2, snd r3)
               else (let s4 = openLogFile (fst s2) (snd r3)
                     in (None, (fst (snd s4))\<lparr>m_currentFileSize := 0\<rparr>, snd (snd s4))))
      else (None, L, w))"
  by (simp add: checkRotation_def Let_def split: prod.splits option.splits)

lemma checkRotation_cout: "cout (snd (snd (checkRotation n L w))) = cout w"
  by (simp add: checkRotation_unfold Let_def openLogFile_frame rotateLogFile_frame
        closeLogFile_frame write_messages_frame)

lemma checkRotation_fields:
  "m_lastFlushTime (fst (snd (checkRotation n L w))) = m_lastFlushTime L"
  "m_logFilePath (fst (snd (checkRotation n L w))) = m_logFilePath L"
  "m_consoleOutput (fst (snd (checkRotation n L w))) = m_consoleOutput L"
  by (simp_all add: checkRotation_unfold Let_def openLogFile_fields closeLogFile_fields)

lemma checkRotation_thrown_buffer:
  "fst (checkRotation n L w) \<noteq> None \<Longrightarrow> m_messageBuffer (fst (snd (checkRotation n L w))) = []"
  by (simp add: checkRotation_unfold Let_def closeLogFile_fields split: if_splits)

lemma flushBuffer_cout: "cout (snd (flushBuffer L w)) = cout w"
  by (simp add: flushBuffer_def write_messages_frame)

lemma flushBuffer_fields:
  "m_currentFileSize (fst (flushBuffer L w)) = m_currentFileSize L"
  "m_lastFlushTime (fst (flushBuffer L w)) = m_lastFlushTime L"
  "m_messageBuffer (fst (flushBuffer L w)) = []"
  by (simp_all add: flushBuffer_def)

section \<open>Logging a line\<close>

lemma log_rejected:
  "\<not> m_initialized L \<or> level_value level > level_value (m_currentLevel L) \<Longrightarrow>
   log level r clk t L w = (L, w)"
  by (simp add: log_def)

lemma log_admitted:
  assumes "m_initialized L" "level_value level \<le> level_value (m_currentLevel L)"
  shows "log level r clk t L w =
     store_line
       (spec_line (getTimestamp clk TIME_STAMP_BUFFER) (logLevelToString level)
          (vsnprintf m_bufferSize r))
       t L
       (if m_consoleOutput L
        then w\<lparr>cout := cout w @ spec_line (getTimestamp clk TIME_STAMP_BUFFER)
                                    (logLevelToString level) (vsnprintf m_bufferSize r)\<rparr>
        else w)"
  using assms
  by (simp add: log_def store_line_def Let_def spec_line_def push_back_move_def
        split: prod.splits option.splits)

lemma store_line_cout: "cout (snd (store_line line t L w0)) = cout w0"
  by (simp add: store_line_def Let_def openLogFile_frame checkRotation_cout flushBuffer_cout)

lemma store_line_lastFlushTime:
  "m_lastFlushTime (fst (store_line line t L w0)) = m_lastFlushTime L"
  by (simp add: store_line_def Let_def openLogFile_fields checkRotation_fields flushBuffer_fields)

lemma log_console:
  assumes "m_initialized L" "level_value level \<le> level_value (m_currentLevel L)"
  shows "cout (snd (log level r clk t L w)) =
         cout w @ (if m_consoleOutput L
                   then spec_line (getTimestamp clk TIME_STAMP_BUFFER) (logLevelToString level)
                          (vsnprintf m_bufferSize r)
                   else [])"
  by (simp add: log_admitted [OF assms] store_line_cout)

lemma openLogFile_closed_allowed:
  assumes "m_logFile L = None" "\<not> open_denied w App (m_logFilePath L)"
  shows "openLogFile L w =
     (True,
      L\<lparr>m_logFile := Some (m_logFilePath L),
        m_currentFileSize := of_nat (length (file_content w (m_logFilePath L)))\<rparr>,
      w\<lparr>fs_calls := fs_calls w @ [CallOpen (m_logFilePath L) App],
        files := (files w)(m_logFilePath L \<mapsto> file_content w (m_logFilePath L))\<rparr>)"
  using assms
  by (simp add: openLogFile_def ofstream_open_def Let_def tellp_def file_content_def)

lemma checkRotation_ready:
  assumes "stream_ready L w"
  shows "fst (checkRotation n L w) = None
         \<and> stream_ready (fst (snd (checkRotation n L w))) (snd (snd (checkRotation n L w)))"
proof (cases "m_currentFileSize L + n > m_maxFileSize L")
  case False
  with assms show ?thesis by (simp add: checkRotation_unfold)
next
  case True
  let ?s2 = "closeLogFile (L\<lparr>m_messageBuffer := []\<rparr>)
               (write_messages (m_logFile L) (m_messageBuffer L) w)"
  let ?r3 = "rotateLogFile (fst ?s2) (snd ?s2)"
  have closed: "m_logFile (fst ?s2) = None"
    by (simp add: closeLogFile_fields)
  have answered: "exists_error (snd ?s2) (m_logFilePath (fst ?s2) @ ''.bak'') = None"
    using assms
    by (simp add: closeLogFile_frame closeLogFile_fields write_messages_frame stream_ready_def)
  have returns: "fst ?r3 = None"
    by (rule rotateLogFile_returns [OF answered])
  have allowed: "\<not> open_denied (snd ?r3) App (m_logFilePath (fst ?s2))"
    using assms
    by (simp add: rotateLogFile_frame closeLogFile_frame closeLogFile_fields
          write_messages_frame stream_ready_def)
  have answered': "exists_error (snd ?r3) (m_logFilePath L @ ''.bak'') = None"
    using assms
    by (simp add: rotateLogFile_frame closeLogFile_frame write_messages_frame stream_ready_def)
  have allowed': "\<not> open_denied (snd ?r3) App (m_logFilePath L)"
    using allowed by (simp add: closeLogFile_fields)
  show ?thesis
    using True returns answered' allowed'
    by (simp add: checkRotation_unfold Let_def openLogFile_closed_allowed [OF closed allowed]
          stream_ready_def closeLogFile_fields)
qed

lemma store_line_stored:
  assumes "stream_ready L w0"
  shows "suffix line (on_disk_and_pending (fst (store_line line t L w0)) (snd (store_line line t L w0)))"
proof -
  let ?r2 = "checkRotation (of_nat (length line)) L w0"
  have open0: "m_logFile L \<noteq> None" using assms by (simp add: stream_ready_def)
  have r: "fst ?r2 = None \<and> stream_ready (fst (snd ?r2)) (snd (snd ?r2))"
    by (rule checkRotation_ready [OF assms])
  then obtain c where n: "fst ?r2 = None"
      and h: "m_logFile (fst (snd ?r2)) = Some (m_logFilePath (fst (snd ?r2)))"
      and c: "files (snd (snd ?r2)) (m_logFilePath (fst (snd ?r2))) = Some c"
    by (auto simp: stream_ready_def)
  show ?thesis
    using n h c
    by (simp add: store_line_def Let_def openLogFile_already_open [OF open0] flushBuffer_def
          write_messages_open [OF c] on_disk_and_pending_def file_content_def suffix_def)
qed

lemma log_stored:
  assumes "m_initialized L" "level_value level \<le> level_value (m_currentLevel L)"
    and "stream_ready L w"
  shows "suffix (spec_line (getTimestamp clk TIME_STAMP_BUFFER) (logLevelToString level)
                   (vsnprintf m_bufferSize r))
           (on_disk_and_pending (fst (log level r clk t L w)) (snd (log level r clk t L w)))"
proof -
  have "stream_ready L (if m_consoleOutput L
        then w\<lparr>cout := cout w @ spec_line (getTimestamp clk TIME_STAMP_BUFFER)
                                    (logLevelToString level) (vsnprintf m_bufferSize r)\<rparr>
        else w)"
    using assms(3) by (simp add: stream_ready_def)
  from store_line_stored [OF this] show ?thesis
    by (simp only: log_admitted [OF assms(1,2)])
qed

section \<open>Rotation: when it happens\<close>

lemma rotateLogFile_permitted:
  assumes "files w (m_logFilePath L) = Some c"
    and "exists_error w (m_logFilePath L @ ''.bak'') = None"
    and "remove_error w (m_logFilePath L @ ''.bak'') = None"
    and "rename_error w (m_logFilePath L) (m_logFilePath L @ ''.bak'') = None"
    and "m_logFilePath L @ ''.bak'' \<notin> dirs w"
  shows "rotateLogFile L w =
     (None,
      w\<lparr>fs_calls := fs_calls w @
          (if fs_exists w (m_logFilePath L @ ''.bak'') then [CallRemove (m_logFilePath L @ ''.bak'')] else []) @
          [CallRename (m_logFilePath L) (m_logFilePath L @ ''.bak'')],
        files := (files w)(m_logFilePath L := None, m_logFilePath L @ ''.bak'' \<mapsto> c)\<rparr>)"
  using assms
  by (simp add: rotateLogFile_def fs_remove_def fs_rename_def Let_def)

lemma checkRotation_rotates:
  assumes "m_currentFileSize L + n > m_maxFileSize L"
    and "rotation_permitted L w"
  shows "checkRotation n L w =
     (None,
      L\<lparr>m_messageBuffer := [], m_currentFileSize := 0\<rparr>,
      w\<lparr>fs_calls := fs_calls w @ [CallClose (m_logFilePath L)] @
          (if files w (m_logFilePath L @ ''.bak'') \<noteq> None
           then [CallRemove (m_logFilePath L @ ''.bak'')] else []) @
          [CallRename (m_logFilePath L) (m_logFilePath L @ ''.bak''),
           CallOpen (m_logFilePath L) App],
        files := (files w)(m_logFilePath L @ ''.bak'' \<mapsto>
                             file_content w (m_logFilePath L) @ concat (m_messageBuffer L),
                           m_logFilePath L \<mapsto> [])\<rparr>)"
proof -
  let ?p = "m_logFilePath L" and ?bak = "m_logFilePath L @ ''.bak''"
  let ?all = "file_content w (m_logFilePath L) @ concat (m_messageBuffer L)"
  let ?W1 = "w\<lparr>files := (files w)(?p \<mapsto> ?all)\<rparr>"
  let ?L2 = "L\<lparr>m_messageBuffer := [], m_logFile := None\<rparr>"
  let ?W2 = "?W1\<lparr>fs_calls := fs_calls ?W1 @ [CallClose ?p]\<rparr>"
  let ?W3 = "?W2\<lparr>fs_calls := fs_calls ?W2 @
          (if fs_exists ?W2 ?bak then [CallRemove ?bak] else []) @ [CallRename ?p ?bak],
         files := (files ?W2)(?p := None, ?bak \<mapsto> ?all)\<rparr>"
  let ?L3 = "?L2\<lparr>m_logFile := Some ?p, m_currentFileSize := of_nat (length (file_content ?W3 ?p))\<rparr>"
  let ?W4 = "?W3\<lparr>fs_calls := fs_calls ?W3 @ [CallOpen ?p App],
        files := (files ?W3)(?p \<mapsto> file_content ?W3 ?p)\<rparr>"
  from assms(2) have opened: "m_logFile L = Some ?p"
    and there: "files w ?p = Some (file_content w ?p)"
    and ex: "exists_error w ?bak = None"
    and rm: "remove_error w ?bak = None" and rn: "rename_error w ?p ?bak = None"
    and nodir: "?bak \<notin> dirs w" and allowed: "\<not> open_denied w App ?p"
    by (auto simp: rotation_permitted_def file_content_def)
  have s1: "write_messages (m_logFile L) (m_messageBuffer L) w = ?W1"
    using opened there by (simp add: write_messages_open)
  have s2: "closeLogFile (L\<lparr>m_messageBuffer := []\<rparr>) ?W1 = (?L2, ?W2)"
    using opened by (simp add: closeLogFile_def)
  have s3: "rotateLogFile ?L2 ?W2 = (None, ?W3)"
    using ex rm rn nodir rotateLogFile_permitted [of ?W2 ?L2 ?all] by simp
  have s4: "openLogFile ?L2 ?W3 = (True, ?L3, ?W4)"
    using allowed openLogFile_closed_allowed [of ?L2 ?W3] by simp
  have step: "checkRotation n L w = (None, ?L3\<lparr>m_currentFileSize := 0\<rparr>, ?W4)"
    using assms(1)
    by (simp only: checkRotation_unfold if_True Let_def s1 s2 fst_conv snd_conv s3 s4
          simp_thms if_False)
  have Leq: "?L3\<lparr>m_currentFileSize := 0\<rparr> = L\<lparr>m_messageBuffer := [], m_currentFileSize := 0\<rparr>"
    using opened by simp
  have feq: "(files w)(?p \<mapsto> ?all, ?p := None, ?bak \<mapsto> ?all, ?p \<mapsto> [])
             = (files w)(?bak \<mapsto> ?all, ?p \<mapsto> [])"
    by (rule ext) simp
  have Weq: "?W4 = w\<lparr>fs_calls := fs_calls w @ [CallClose ?p] @
          (if files w ?bak \<noteq> None then [CallRemove ?bak] else []) @
          [CallRename ?p ?bak, CallOpen ?p App],
        files := (files w)(?bak \<mapsto> ?all, ?p \<mapsto> [])\<rparr>"
    using feq nodir by (simp add: fs_exists_def file_content_def)
  show ?thesis
    by (simp only: step Leq Weq)
qed

lemma checkRotation_not_triggered:
  "\<not> m_currentFileSize L + n > m_maxFileSize L \<Longrightarrow> checkRotation n L w = (None, L, w)"
  by (simp add: checkRotation_unfold)

lemma checkRotation_throws:
  assumes "m_currentFileSize L + n > m_maxFileSize L"
    and "m_logFile L = Some (m_logFilePath L)"
    and "files w (m_logFilePath L) = Some c"
    and "exists_error w (m_logFilePath L @ ''.bak'') = Some what"
  shows "checkRotation n L w =
     (Some what,
      L\<lparr>m_messageBuffer := [], m_logFile := None\<rparr>,
      w\<lparr>files := (files w)(m_logFilePath L \<mapsto> c @ concat (m_messageBuffer L)),
        fs_calls := fs_calls w @ [CallClose (m_logFilePath L)]\<rparr>)"
  using assms
  by (simp add: checkRotation_unfold Let_def write_messages_open closeLogFile_def
        rotateLogFile_throws)

lemma size_sum_no_wrap:
  fixes a m :: size_t
  assumes "unat a + k < 2 ^ 64"
  shows "(m < a + of_nat k) = (unat m < unat a + k)"
proof -
  have k: "unat (of_nat k :: size_t) = k"
    using assms by (simp add: unat_of_nat)
  have "unat (a + of_nat k) = unat a + k"
    using assms k by (simp add: unat_add_lem [THEN iffD1])
  then show ?thesis by (simp add: word_less_nat_alt)
qed

lemma rotation_permitted_cout:
  "rotation_permitted L (w\<lparr>cout := x\<rparr>) = rotation_permitted L w"
  by (simp add: rotation_permitted_def)

lemma store_line_rotates:
  assumes "m_currentFileSize L + of_nat (length line) > m_maxFileSize L"
    and "rotation_permitted L w0"
  shows "files (snd (store_line line t L w0)) (m_logFilePath L @ ''.bak'')
           = Some (file_content w0 (m_logFilePath L) @ concat (m_messageBuffer L))
       \<and> on_disk_and_pending (fst (store_line line t L w0)) (snd (store_line line t L w0)) = line"
proof -
  have open0: "m_logFile L \<noteq> None" and opened: "m_logFile L = Some (m_logFilePath L)"
    using assms(2) by (simp_all add: rotation_permitted_def)
  show ?thesis
    using opened
    by (simp add: store_line_def Let_def openLogFile_already_open [OF open0]
          checkRotation_rotates [OF assms] flushBuffer_def write_messages_open
          on_disk_and_pending_def file_content_def ofstream_write_def)
qed

lemma store_line_appends:
  assumes "\<not> m_currentFileSize L + of_nat (length line) > m_maxFileSize L"
    and "m_logFile L = Some (m_logFilePath L)"
    and "files w0 (m_logFilePath L) = Some c"
  shows "files (snd (store_line line t L w0)) (m_logFilePath L @ ''.bak'')
           = files w0 (m_logFilePath L @ ''.bak'')
       \<and> on_disk_and_pending (fst (store_line line t L w0)) (snd (store_line line t L w0))
           = on_disk_and_pending L w0 @ line"
proof -
  have open0: "m_logFile L \<noteq> None" using assms(2) by simp
  show ?thesis
    using assms(2,3)
    by (simp add: store_line_def Let_def openLogFile_already_open [OF open0]
          checkRotation_not_triggered [OF assms(1)] flushBuffer_def write_messages_open
          on_disk_and_pending_def file_content_def)
qed

lemma store_line_throws:
  assumes "m_currentFileSize L + of_nat (length line) > m_maxFileSize L"
    and "m_logFile L = Some (m_logFilePath L)"
    and "files w0 (m_logFilePath L) = Some c"
    and "exists_error w0 (m_logFilePath L @ ''.bak'') = Some what"
  shows "store_line line t L w0 =
     (L\<lparr>m_messageBuffer := [], m_logFile := None\<rparr>,
      w0\<lparr>files := (files w0)(m_logFilePath L \<mapsto> c @ concat (m_messageBuffer L)),
         fs_calls := fs_calls w0 @ [CallClose (m_logFilePath L)],
         uncaught := Some what\<rparr>)"
proof -
  have open0: "m_logFile L \<noteq> None" using assms(2) by simp
  show ?thesis
    by (simp add: store_line_def Let_def openLogFile_already_open [OF open0]
          checkRotation_throws [OF assms])
qed

text \<open>
  C3. For an admitted message, with the stream open on the log file, \<^verbatim>\<open>log\<close> compares the
  size counter plus the size of the composed line with the maximum, in \<^verbatim>\<open>size_t\<close>
  arithmetic (the comparison of the byte counts when the sum fits in 64 bits). When the sum
  is not greater, the line is appended and the backup file is untouched: so also when the
  sum equals the maximum. When the sum is greater and the file system permits the steps, the
  log is rotated before the line is stored: the old content with the pending lines is the
  backup, the new line alone is in the new log. When the log holds anything, the rotation is
  thus seen in the files exactly when the sum is greater. When the sum is greater and asking
  whether the backup exists throws, the pending lines are written and the stream is closed,
  but nothing is renamed, the line is lost and the exception leaves \<^verbatim>\<open>log\<close>.
\<close>

theorem rotation_trigger:
  assumes "m_initialized L" and "level_value level \<le> level_value (m_currentLevel L)"
    and "m_logFile L = Some (m_logFilePath L)" and "files w (m_logFilePath L) \<noteq> None"
  shows "(let line = spec_line (getTimestamp clk TIME_STAMP_BUFFER) (logLevelToString level)
                       (vsnprintf m_bufferSize r);
              s' = log level r clk t L w;
              due = (m_currentFileSize L + of_nat (length line) > m_maxFileSize L)
          in (\<not> due \<longrightarrow> appended L w line s')
           \<and> (due \<and> rotation_permitted L w \<longrightarrow> rotated L w line s')
           \<and> (rotation_permitted L w \<and> on_disk_and_pending L w \<noteq> [] \<longrightarrow>
                rotated L w line s' = due)
           \<and> (unat (m_currentFileSize L) + length line < 2 ^ 64 \<longrightarrow>
                due = (unat (m_currentFileSize L) + length line > unat (m_maxFileSize L)))
           \<and> (unat (m_currentFileSize L) + length line = unat (m_maxFileSize L) \<longrightarrow>
                appended L w line s')
           \<and> (due \<and> exists_error w (m_logFilePath L @ ''.bak'') = Some what \<longrightarrow>
                uncaught (snd s') = Some what
                \<and> files (snd s') (m_logFilePath L @ ''.bak'')
                    = files w (m_logFilePath L @ ''.bak'')
                \<and> files (snd s') (m_logFilePath L)
                    = Some (file_content w (m_logFilePath L) @ concat (m_messageBuffer L))
                \<and> m_logFile (fst s') = None
                \<and> m_messageBuffer (fst s') = []
                \<and> m_currentFileSize (fst s') = m_currentFileSize L))"
proof -
  let ?line = "spec_line (getTimestamp clk TIME_STAMP_BUFFER) (logLevelToString level)
                 (vsnprintf m_bufferSize r)"
  let ?w0 = "if m_consoleOutput L then w\<lparr>cout := cout w @ ?line\<rparr> else w"
  let ?s' = "log level r clk t L w"
  let ?due = "m_currentFileSize L + of_nat (length ?line) > m_maxFileSize L"
  let ?p = "m_logFilePath L" and ?bak = "m_logFilePath L @ ''.bak''"
  have s': "?s' = store_line ?line t L ?w0"
    by (rule log_admitted [OF assms(1,2)])
  obtain c where c: "files w ?p = Some c" using assms(4) by auto
  have c0: "files ?w0 ?p = Some c" using c by simp
  have f0: "files ?w0 = files w" by simp
  have fc0: "file_content ?w0 ?p = file_content w ?p" by (simp add: file_content_def)
  have od0: "on_disk_and_pending L ?w0 = on_disk_and_pending L w"
    by (simp add: on_disk_and_pending_def file_content_def)
  have p0: "rotation_permitted L ?w0 = rotation_permitted L w"
    by (simp add: rotation_permitted_cout)
  have A: "appended L w ?line ?s'" if "\<not> ?due"
    using store_line_appends [OF that assms(3) c0, of t]
    by (simp only: appended_def s' f0 od0)
  have B: "rotated L w ?line ?s'" if "?due" "rotation_permitted L w"
    using store_line_rotates [OF that(1), of ?w0 t] that(2)
    by (simp only: rotated_def s' p0 fc0 simp_thms)
  have D: "rotated L w ?line ?s' = ?due"
    if perm: "rotation_permitted L w" and some: "on_disk_and_pending L w \<noteq> []"
  proof (cases ?due)
    case True
    with B [OF True perm] show ?thesis by simp
  next
    case False
    from A [OF False] have "on_disk_and_pending (fst ?s') (snd ?s') = on_disk_and_pending L w @ ?line"
      by (simp add: appended_def)
    with some have "on_disk_and_pending (fst ?s') (snd ?s') \<noteq> ?line" by simp
    with False show ?thesis by (simp add: rotated_def)
  qed
  have E: "?due = (unat (m_currentFileSize L) + length ?line > unat (m_maxFileSize L))"
    if "unat (m_currentFileSize L) + length ?line < 2 ^ 64"
    by (rule size_sum_no_wrap [OF that])
  have F: "appended L w ?line ?s'"
    if eq: "unat (m_currentFileSize L) + length ?line = unat (m_maxFileSize L)"
  proof -
    have "unat (m_currentFileSize L) + length ?line < 2 ^ 64"
      using eq unsigned_less [of "m_maxFileSize L", where 'a = nat] by simp
    from size_sum_no_wrap [OF this, of "m_maxFileSize L"] eq
    have "\<not> ?due" by simp
    then show ?thesis by (rule A)
  qed
  have G: "uncaught (snd ?s') = Some what
        \<and> files (snd ?s') ?bak = files w ?bak
        \<and> files (snd ?s') ?p = Some (file_content w ?p @ concat (m_messageBuffer L))
        \<and> m_logFile (fst ?s') = None
        \<and> m_messageBuffer (fst ?s') = []
        \<and> m_currentFileSize (fst ?s') = m_currentFileSize L"
    if "?due" and "exists_error w ?bak = Some what"
  proof -
    have e0: "exists_error ?w0 ?bak = Some what" using that(2) by simp
    show ?thesis
      using c
      by (simp add: s' store_line_throws [OF that(1) assms(3) c0 e0] file_content_def)
  qed
  from A B D E F G show ?thesis
    unfolding Let_def by blast
qed

theorem rotation_trigger_witness:
  "m_initialized example_logger
   \<and> level_value WARNING \<le> level_value (m_currentLevel example_logger)
   \<and> m_logFile example_logger = Some (m_logFilePath example_logger)
   \<and> files example_disk (m_logFilePath example_logger) \<noteq> None
   \<and> files (snd (log WARNING ''x'' example_clock 0 example_logger example_disk)) ''app.log.bak''
        = None
   \<and> on_disk_and_pending
        (fst (log WARNING ''x'' example_clock 0 example_logger example_disk))
        (snd (log WARNING ''x'' example_clock 0 example_logger example_disk))
        = ''zeroonetwo[2024-01-02 03:04:05.567] [WARN ] x'' @ newline
   \<and> on_disk_and_pending
        (fst (log WARNING ''x'' example_clock 0 (example_logger\<lparr>m_maxFileSize := 40\<rparr>) example_disk))
        (snd (log WARNING ''x'' example_clock 0 (example_logger\<lparr>m_maxFileSize := 40\<rparr>) example_disk))
        = ''zeroonetwo[2024-01-02 03:04:05.567] [WARN ] x'' @ newline
   \<and> rotation_permitted (example_logger\<lparr>m_maxFileSize := 39\<rparr>) example_disk
   \<and> on_disk_and_pending (example_logger\<lparr>m_maxFileSize := 39\<rparr>) example_disk = ''zeroonetwo''
   \<and> files (snd (log WARNING ''x'' example_clock 0 (example_logger\<lparr>m_maxFileSize := 39\<rparr>)
                     example_disk)) ''app.log.bak''
        = Some ''zeroonetwo''
   \<and> on_disk_and_pending
        (fst (log WARNING ''x'' example_clock 0 (example_logger\<lparr>m_maxFileSize := 39\<rparr>) example_disk))
        (snd (log WARNING ''x'' example_clock 0 (example_logger\<lparr>m_maxFileSize := 39\<rparr>) example_disk))
        = ''[2024-01-02 03:04:05.567] [WARN ] x'' @ newline
   \<and> exists_error example_disk_no_answer ''app.log.bak'' = Some ''File name too long''
   \<and> uncaught (snd (log WARNING ''x'' example_clock 0 (example_logger\<lparr>m_maxFileSize := 39\<rparr>)
                       example_disk_no_answer)) = Some ''File name too long''
   \<and> files (snd (log WARNING ''x'' example_clock 0 (example_logger\<lparr>m_maxFileSize := 39\<rparr>)
                     example_disk_no_answer)) ''app.log.bak'' = None
   \<and> files (snd (log WARNING ''x'' example_clock 0 (example_logger\<lparr>m_maxFileSize := 39\<rparr>)
                     example_disk_no_answer)) ''app.log'' = Some ''zeroonetwo''
   \<and> m_logFile (fst (log WARNING ''x'' example_clock 0 (example_logger\<lparr>m_maxFileSize := 39\<rparr>)
                        example_disk_no_answer)) = None
   \<and> m_messageBuffer (fst (log WARNING ''x'' example_clock 0
                              (example_logger\<lparr>m_maxFileSize := 39\<rparr>) example_disk_no_answer)) = []
   \<and> m_currentFileSize (fst (log WARNING ''x'' example_clock 0
                                (example_logger\<lparr>m_maxFileSize := 39\<rparr>) example_disk_no_answer)) = 4"
proof -
  let ?line = "spec_line (getTimestamp example_clock TIME_STAMP_BUFFER) (logLevelToString WARNING)
                 (vsnprintf m_bufferSize ''x'')"
  let ?L39 = "example_logger\<lparr>m_maxFileSize := 39\<rparr>" and ?L40 = "example_logger\<lparr>m_maxFileSize := 40\<rparr>"
  have line: "spec_line (getTimestamp example_clock TIME_STAMP_BUFFER) ''WARN ''
                (vsnprintf m_bufferSize ''x'') = ''[2024-01-02 03:04:05.567] [WARN ] x'' @ newline"
    by (simp add: example_stamp spec_line_def vsnprintf_def m_bufferSize_def BUFFER_SIZE_def)
  have h0: "m_initialized example_logger"
      "level_value WARNING \<le> level_value (m_currentLevel example_logger)"
      "m_logFile example_logger = Some (m_logFilePath example_logger)"
      "files example_disk (m_logFilePath example_logger) \<noteq> None"
    and h39: "m_initialized ?L39" "level_value WARNING \<le> level_value (m_currentLevel ?L39)"
      "m_logFile ?L39 = Some (m_logFilePath ?L39)"
      "files example_disk (m_logFilePath ?L39) \<noteq> None"
    and h40: "m_initialized ?L40" "level_value WARNING \<le> level_value (m_currentLevel ?L40)"
      "m_logFile ?L40 = Some (m_logFilePath ?L40)"
      "files example_disk (m_logFilePath ?L40) \<noteq> None"
    and h39n: "files example_disk_no_answer (m_logFilePath ?L39) \<noteq> None"
    by (simp_all add: example_logger_fields example_disk_fields example_no_answer_fields)
  have not_due: "\<not> m_currentFileSize example_logger + of_nat (length ?line)
                     > m_maxFileSize example_logger"
    and exact: "unat (m_currentFileSize ?L40) + length ?line = unat (m_maxFileSize ?L40)"
    and due: "m_currentFileSize ?L39 + of_nat (length ?line) > m_maxFileSize ?L39"
    by (simp_all add: example_line_length example_logger_fields)
  have perm: "rotation_permitted ?L39 example_disk"
    by (simp add: rotation_permitted_def example_logger_fields example_disk_fields)
  have some: "on_disk_and_pending ?L39 example_disk = ''zeroonetwo''"
      "on_disk_and_pending ?L40 example_disk = ''zeroonetwo''"
      "on_disk_and_pending example_logger example_disk = ''zeroonetwo''"
    by (simp_all add: on_disk_and_pending_def file_content_def example_logger_fields
          example_disk_fields)
  have no_answer: "exists_error example_disk_no_answer (m_logFilePath ?L39 @ ''.bak'')
                     = Some ''File name too long''"
    by (simp add: example_logger_fields example_no_answer_fields)
  from rotation_trigger [OF h0, where clk = example_clock and r = "''x''" and t = 0,
         unfolded Let_def] not_due
  have a1: "appended example_logger example_disk ?line
              (log WARNING ''x'' example_clock 0 example_logger example_disk)"
    by blast
  from rotation_trigger [OF h40, where clk = example_clock and r = "''x''" and t = 0,
         unfolded Let_def] exact
  have a2: "appended ?L40 example_disk ?line (log WARNING ''x'' example_clock 0 ?L40 example_disk)"
    by blast
  from rotation_trigger [OF h39, where clk = example_clock and r = "''x''" and t = 0,
         unfolded Let_def] due perm
  have a3: "rotated ?L39 example_disk ?line (log WARNING ''x'' example_clock 0 ?L39 example_disk)"
    by blast
  from rotation_trigger [OF h39(1,2,3) h39n, where clk = example_clock and r = "''x''"
         and t = 0 and what = "''File name too long''", unfolded Let_def] due no_answer
  have a4: "uncaught (snd (log WARNING ''x'' example_clock 0 ?L39 example_disk_no_answer))
              = Some ''File name too long''
        \<and> files (snd (log WARNING ''x'' example_clock 0 ?L39 example_disk_no_answer))
               (m_logFilePath ?L39 @ ''.bak'')
            = files example_disk_no_answer (m_logFilePath ?L39 @ ''.bak'')
        \<and> files (snd (log WARNING ''x'' example_clock 0 ?L39 example_disk_no_answer))
               (m_logFilePath ?L39)
            = Some (file_content example_disk_no_answer (m_logFilePath ?L39)
                    @ concat (m_messageBuffer ?L39))
        \<and> m_logFile (fst (log WARNING ''x'' example_clock 0 ?L39 example_disk_no_answer)) = None
        \<and> m_messageBuffer (fst (log WARNING ''x'' example_clock 0 ?L39 example_disk_no_answer)) = []
        \<and> m_currentFileSize (fst (log WARNING ''x'' example_clock 0 ?L39 example_disk_no_answer))
            = m_currentFileSize ?L39"
    by blast
  from a1 a2 a3 a4 perm h0 show ?thesis
    by (simp add: appended_def rotated_def line some file_content_def
          example_logger_fields example_disk_fields example_no_answer_fields)
qed

text \<open>
  The whole path at a concrete input: a logger initialised with the maximum 200 on a file
  system that cannot say whether the backup exists, then a message of 150 bytes. The counter
  is 52 and the line has 185 bytes, so the rotation is due: the line is on the console, the
  stream is closed, nothing is pending, the counter is still 52, there is no backup, and
  the exception has left \<^verbatim>\<open>info\<close>.
\<close>

lemma exception_leaves_info_example:
  "(case init ''app.log'' INFO True 200 example_clock (Logger_ctor 0) example_world_no_answer of
      (ok, L, w) \<Rightarrow>
        (case info (replicate 150 (CHR ''a'')) example_clock 5 L w of
           (L1, w1) \<Rightarrow>
             ok \<and> m_currentFileSize L = 52 \<and> uncaught w = None
             \<and> uncaught w1 = Some ''File name too long''
             \<and> length (cout w1) = 185
             \<and> m_logFile L1 = None \<and> m_messageBuffer L1 = [] \<and> m_currentFileSize L1 = 52
             \<and> files w1 ''app.log.bak'' = None
             \<and> files w1 ''app.log'' = files w ''app.log''
             \<and> fs_calls w1 = [CallOpen ''app.log'' App, CallClose ''app.log'']))"
  by code_simp

section \<open>The level filter\<close>

text \<open>
  C2. On an initialised logger, a message whose level is above the threshold (in the order
  \<open>ERR = 0 < WARNING = 1 < INFO = 2 < DEBUG = 3\<close>) changes nothing at all. A message whose
  level is at most the threshold is composed into a line that goes to the console when the
  mirror is on and, when the stream is ready, ends what is in the file or pending for it.
  With the mirror on, the console grows exactly when the level is at most the threshold. With
  the threshold \<open>INFO\<close>, the admitted levels are \<open>ERR\<close>, \<open>WARNING\<close> and \<open>INFO\<close>.
\<close>

theorem level_filter:
  assumes "m_initialized L"
  shows "(level_value requested > level_value (m_currentLevel L) \<longrightarrow>
            log requested r clk t L w = (L, w))
    \<and> (level_value requested \<le> level_value (m_currentLevel L) \<longrightarrow>
          cout (snd (log requested r clk t L w)) =
            cout w @ (if m_consoleOutput L
                      then spec_line (getTimestamp clk TIME_STAMP_BUFFER)
                             (logLevelToString requested) (vsnprintf m_bufferSize r)
                      else [])
          \<and> (stream_ready L w \<longrightarrow>
               suffix (spec_line (getTimestamp clk TIME_STAMP_BUFFER)
                         (logLevelToString requested) (vsnprintf m_bufferSize r))
                 (on_disk_and_pending (fst (log requested r clk t L w))
                    (snd (log requested r clk t L w)))))
    \<and> (m_consoleOutput L \<longrightarrow>
          (cout (snd (log requested r clk t L w)) \<noteq> cout w)
            = (level_value requested \<le> level_value (m_currentLevel L)))
    \<and> (m_currentLevel L = INFO \<longrightarrow>
          (level_value requested \<le> level_value (m_currentLevel L))
            = (requested = ERR \<or> requested = WARNING \<or> requested = INFO))"
proof -
  have rejected: "log requested r clk t L w = (L, w)"
    if "level_value requested > level_value (m_currentLevel L)"
    using that by (simp add: log_rejected)
  have nonempty: "spec_line s g m \<noteq> []" for s g m
    by (simp add: spec_line_def)
  have console: "(cout (snd (log requested r clk t L w)) \<noteq> cout w)
            = (level_value requested \<le> level_value (m_currentLevel L))"
    if "m_consoleOutput L"
  proof (cases "level_value requested \<le> level_value (m_currentLevel L)")
    case True
    with log_console [OF assms True, of r clk t w] that nonempty show ?thesis by simp
  next
    case False
    with rejected show ?thesis by simp
  qed
  have info_level: "(level_value requested \<le> level_value INFO)
            = (requested = ERR \<or> requested = WARNING \<or> requested = INFO)"
    by (cases requested) simp_all
  show ?thesis
    using rejected console info_level log_console [OF assms] log_stored [OF assms]
    by simp
qed

theorem level_filter_witness:
  "m_initialized example_logger
   \<and> level_value DEBUG > level_value (m_currentLevel example_logger)
   \<and> log DEBUG ''x'' example_clock 0 example_logger example_disk = (example_logger, example_disk)
   \<and> level_value WARNING \<le> level_value (m_currentLevel example_logger)
   \<and> m_consoleOutput example_logger
   \<and> stream_ready example_logger example_disk
   \<and> cout (snd (log WARNING ''x'' example_clock 0 example_logger example_disk))
        = ''[2024-01-02 03:04:05.567] [WARN ] x'' @ newline
   \<and> suffix (''[2024-01-02 03:04:05.567] [WARN ] x'' @ newline)
        (on_disk_and_pending (fst (log WARNING ''x'' example_clock 0 example_logger example_disk))
           (snd (log WARNING ''x'' example_clock 0 example_logger example_disk)))"
  using level_filter [of example_logger DEBUG "''x''" example_clock 0 example_disk]
        level_filter [of example_logger WARNING "''x''" example_clock 0 example_disk]
        example_ready
  by (simp add: example_logger_fields example_disk_fields example_stamp spec_line_def
        vsnprintf_def m_bufferSize_def BUFFER_SIZE_def)

section \<open>The 256-byte message buffer\<close>

lemma vsnprintf_255: "vsnprintf m_bufferSize r = take 255 r"
  by (simp add: vsnprintf_def m_bufferSize_def BUFFER_SIZE_def)

text \<open>
  C10. \<^verbatim>\<open>log\<close> uses only the first 255 bytes of the rendering: called with a rendering or
  with its first 255 bytes, it does the same. Each of \<^verbatim>\<open>error\<close>, \<^verbatim>\<open>warning\<close>,
  \<^verbatim>\<open>info\<close> and \<^verbatim>\<open>debug\<close> is \<^verbatim>\<open>log\<close> at its level on the first 255 bytes. The line of
  an admitted message carries exactly these bytes as its message text, on the console and in
  what is stored.
\<close>

theorem message_cut_at_255_bytes:
  "log level r clk t L w = log level (take 255 r) clk t L w
   \<and> error r clk t L w = log ERR (take 255 r) clk t L w
   \<and> warning r clk t L w = log WARNING (take 255 r) clk t L w
   \<and> info r clk t L w = log INFO (take 255 r) clk t L w
   \<and> debug r clk t L w = log DEBUG (take 255 r) clk t L w
   \<and> length (take 255 r) \<le> 255
   \<and> (m_initialized L \<and> level_value level \<le> level_value (m_currentLevel L) \<longrightarrow>
        cout (snd (log level r clk t L w)) =
          cout w @ (if m_consoleOutput L
                    then spec_line (getTimestamp clk TIME_STAMP_BUFFER) (logLevelToString level)
                           (take 255 r)
                    else [])
        \<and> (stream_ready L w \<longrightarrow>
             suffix (spec_line (getTimestamp clk TIME_STAMP_BUFFER) (logLevelToString level)
                       (take 255 r))
               (on_disk_and_pending (fst (log level r clk t L w)) (snd (log level r clk t L w)))))"
proof -
  have l: "log lv r clk t L w = log lv (take 255 r) clk t L w" for lv
    by (simp add: log_def vsnprintf_255)
  have e: "error r clk t L w = log ERR (take 255 r) clk t L w"
    by (simp add: error_def log_rejected vsnprintf_255)
  have wa: "warning r clk t L w = log WARNING (take 255 r) clk t L w"
    by (simp add: warning_def log_rejected vsnprintf_255)
  have i: "info r clk t L w = log INFO (take 255 r) clk t L w"
    by (simp add: info_def log_rejected vsnprintf_255)
  have d: "debug r clk t L w = log DEBUG (take 255 r) clk t L w"
    by (simp add: debug_def log_rejected vsnprintf_255)
  have c: "cout (snd (log level r clk t L w)) =
          cout w @ (if m_consoleOutput L
                    then spec_line (getTimestamp clk TIME_STAMP_BUFFER) (logLevelToString level)
                           (take 255 r)
                    else [])"
    if "m_initialized L" "level_value level \<le> level_value (m_currentLevel L)"
    using log_console [OF that] by (simp add: vsnprintf_255)
  have s: "suffix (spec_line (getTimestamp clk TIME_STAMP_BUFFER) (logLevelToString level)
                       (take 255 r))
               (on_disk_and_pending (fst (log level r clk t L w)) (snd (log level r clk t L w)))"
    if "m_initialized L" "level_value level \<le> level_value (m_currentLevel L)" "stream_ready L w"
    using log_stored [OF that] by (simp add: vsnprintf_255)
  from l [of level] e wa i d c s show ?thesis by simp
qed

theorem message_cut_at_255_bytes_witness:
  "m_initialized example_logger
   \<and> level_value WARNING \<le> level_value (m_currentLevel example_logger)
   \<and> stream_ready example_logger example_disk
   \<and> cout (snd (log WARNING (replicate 300 (CHR ''a'')) example_clock 0 example_logger example_disk))
        = ''[2024-01-02 03:04:05.567] [WARN ] '' @ replicate 255 (CHR ''a'') @ newline
   \<and> suffix (''[2024-01-02 03:04:05.567] [WARN ] '' @ replicate 255 (CHR ''a'') @ newline)
        (on_disk_and_pending
           (fst (log WARNING (replicate 300 (CHR ''a'')) example_clock 0 example_logger example_disk))
           (snd (log WARNING (replicate 300 (CHR ''a'')) example_clock 0 example_logger example_disk)))"
proof -
  let ?r = "replicate 300 (CHR ''a'')"
  have h: "m_initialized example_logger
           \<and> level_value WARNING \<le> level_value (m_currentLevel example_logger)"
    by (simp add: example_logger_fields)
  from message_cut_at_255_bytes [of WARNING ?r example_clock 0 example_logger example_disk]
       h example_ready
  have c: "cout (snd (log WARNING ?r example_clock 0 example_logger example_disk)) =
          cout example_disk @ (if m_consoleOutput example_logger
                    then spec_line (getTimestamp example_clock TIME_STAMP_BUFFER)
                           (logLevelToString WARNING) (take 255 ?r)
                    else [])"
    and s: "suffix (spec_line (getTimestamp example_clock TIME_STAMP_BUFFER)
                      (logLevelToString WARNING) (take 255 ?r))
              (on_disk_and_pending
                 (fst (log WARNING ?r example_clock 0 example_logger example_disk))
                 (snd (log WARNING ?r example_clock 0 example_logger example_disk)))"
    by blast+
  from h example_ready c s show ?thesis
    by (simp add: example_logger_fields example_disk_fields example_stamp spec_line_def)
qed

section \<open>Initialising twice\<close>

text \<open>
  C8. \<^verbatim>\<open>init\<close> on an initialised logger returns true and changes neither the object nor
  the world, whatever its arguments. So after a call of \<^verbatim>\<open>init\<close> that returned true, a
  second call changes nothing; and when the first call found the logger uninitialised, the
  threshold, the console flag, the path and the maximum size are those of the first call.
\<close>

theorem init_second_call_changes_nothing:
  "(m_initialized L \<longrightarrow>
      init path2 level2 console2 max2 clk2 L w = (True, L, w))
   \<and> (init path1 level1 console1 max1 clk1 L w = (True, L1, w1) \<longrightarrow>
        init path2 level2 console2 max2 clk2 L1 w1 = (True, L1, w1))
   \<and> (\<not> m_initialized L \<and> init path1 level1 console1 max1 clk1 L w = (True, L1, w1) \<longrightarrow>
        m_currentLevel L1 = level1 \<and> m_consoleOutput L1 = console1
        \<and> m_logFilePath L1 = path1 \<and> m_maxFileSize L1 = max1)"
proof -
  let ?L0 = "L\<lparr>m_logFilePath := path1, m_currentLevel := level1,
                m_consoleOutput := console1, m_maxFileSize := max1\<rparr>"
  have first: "init path2 level2 console2 max2 clk2 L w = (True, L, w)" if "m_initialized L"
    using that by (simp add: init_def)
  have made: "m_initialized L1" if "init path1 level1 console1 max1 clk1 L w = (True, L1, w1)"
    using that by (auto simp: init_def Let_def split: if_splits prod.splits)
  have second: "init path2 level2 console2 max2 clk2 L1 w1 = (True, L1, w1)"
    if "init path1 level1 console1 max1 clk1 L w = (True, L1, w1)"
    using made [OF that] by (simp add: init_def)
  have kept: "m_currentLevel L1 = level1 \<and> m_consoleOutput L1 = console1
        \<and> m_logFilePath L1 = path1 \<and> m_maxFileSize L1 = max1"
    if "\<not> m_initialized L" "init path1 level1 console1 max1 clk1 L w = (True, L1, w1)"
  proof -
    obtain made' wd where d: "createLogDirectory path1 w = (made', wd)"
      by (cases "createLogDirectory path1 w") auto
    obtain opened L2 w2 where o: "openLogFile ?L0 wd = (opened, L2, w2)"
      by (cases "openLogFile ?L0 wd") auto
    have f: "m_currentLevel L2 = level1" "m_consoleOutput L2 = console1"
        "m_logFilePath L2 = path1" "m_maxFileSize L2 = max1"
      using openLogFile_fields [of ?L0 wd] o by simp_all
    from that d o f show ?thesis
      by (auto simp: init_def Let_def split: if_splits)
  qed
  from first second kept show ?thesis by blast
qed

theorem init_second_call_changes_nothing_witness:
  "m_initialized example_logger
   \<and> init ''other.log'' DEBUG False 1 example_clock example_logger example_disk
       = (True, example_logger, example_disk)
   \<and> \<not> m_initialized (Logger_ctor 0)
   \<and> init ''app.log'' INFO True 200 example_clock (Logger_ctor 0) example_world
       = (True, fst (snd started), snd (snd started))
   \<and> init ''other.log'' DEBUG False 1 example_clock (fst (snd started)) (snd (snd started))
       = (True, fst (snd started), snd (snd started))
   \<and> m_currentLevel (fst (snd started)) = INFO \<and> m_consoleOutput (fst (snd started))
   \<and> m_logFilePath (fst (snd started)) = ''app.log'' \<and> m_maxFileSize (fst (snd started)) = 200"
proof -
  have s: "init ''app.log'' INFO True 200 example_clock (Logger_ctor 0) example_world
       = (True, fst (snd started), snd (snd started))"
    using started_ok(1) by (cases started) (simp add: started_def)
  show ?thesis
    using s started_ok(2)
      init_second_call_changes_nothing [of example_logger "''other.log''" DEBUG False 1
        example_clock example_disk "''app.log''" INFO True 200 example_clock
        "fst (snd started)" "snd (snd started)"]
      init_second_call_changes_nothing [of "Logger_ctor 0" "''other.log''" DEBUG False 1
        example_clock example_world "''app.log''" INFO True 200 example_clock
        "fst (snd started)" "snd (snd started)"]
    by (simp add: example_logger_fields)
qed

section \<open>Rotation: what it does\<close>

text \<open>
  C4. When the stream is open on the log file and the file system permits the steps, a due
  rotation in \<^verbatim>\<open>checkRotation\<close> throws nothing and writes the pending lines to the current file in their
  order, closes it, removes the backup if there is one, renames the current file to the
  backup name, opens the original path again and sets the size counter to zero: the calls
  are made in this order, the backup holds the old content followed by the pending lines,
  the log file is empty and so is the buffer. For an admitted message that makes the
  rotation due, \<^verbatim>\<open>log\<close> leaves everything earlier in the backup, in order, and the new
  line alone in the new file or pending for it.
\<close>

theorem rotation_sequence:
  assumes "rotation_permitted L w"
  shows "(m_currentFileSize L + n > m_maxFileSize L \<longrightarrow>
      checkRotation n L w =
       (None,
        L\<lparr>m_messageBuffer := [], m_currentFileSize := 0\<rparr>,
        w\<lparr>fs_calls := fs_calls w @ [CallClose (m_logFilePath L)] @
            (if files w (m_logFilePath L @ ''.bak'') \<noteq> None
             then [CallRemove (m_logFilePath L @ ''.bak'')] else []) @
            [CallRename (m_logFilePath L) (m_logFilePath L @ ''.bak''),
             CallOpen (m_logFilePath L) App],
          files := (files w)(m_logFilePath L @ ''.bak'' \<mapsto>
                               file_content w (m_logFilePath L) @ concat (m_messageBuffer L),
                             m_logFilePath L \<mapsto> [])\<rparr>))
    \<and> (m_initialized L \<and> level_value level \<le> level_value (m_currentLevel L)
        \<and> m_currentFileSize L
             + of_nat (length (spec_line (getTimestamp clk TIME_STAMP_BUFFER)
                                 (logLevelToString level) (vsnprintf m_bufferSize r)))
           > m_maxFileSize L \<longrightarrow>
        files (snd (log level r clk t L w)) (m_logFilePath L @ ''.bak'')
          = Some (file_content w (m_logFilePath L) @ concat (m_messageBuffer L))
        \<and> on_disk_and_pending (fst (log level r clk t L w)) (snd (log level r clk t L w))
          = spec_line (getTimestamp clk TIME_STAMP_BUFFER) (logLevelToString level)
              (vsnprintf m_bufferSize r))"
proof -
  let ?line = "spec_line (getTimestamp clk TIME_STAMP_BUFFER) (logLevelToString level)
                 (vsnprintf m_bufferSize r)"
  let ?w0 = "if m_consoleOutput L then w\<lparr>cout := cout w @ ?line\<rparr> else w"
  have p0: "rotation_permitted L ?w0"
    using assms by (simp add: rotation_permitted_cout)
  have f0: "file_content ?w0 (m_logFilePath L) = file_content w (m_logFilePath L)"
    by (simp add: file_content_def)
  have part2: "files (snd (log level r clk t L w)) (m_logFilePath L @ ''.bak'')
          = Some (file_content w (m_logFilePath L) @ concat (m_messageBuffer L))
        \<and> on_disk_and_pending (fst (log level r clk t L w)) (snd (log level r clk t L w)) = ?line"
    if a: "m_initialized L" "level_value level \<le> level_value (m_currentLevel L)"
      and trig: "m_currentFileSize L + of_nat (length ?line) > m_maxFileSize L"
    using store_line_rotates [OF trig p0, of t]
    by (simp only: log_admitted [OF a] f0)
  from checkRotation_rotates [OF _ assms, of n] part2 show ?thesis by blast
qed

theorem rotation_sequence_witness:
  "rotation_permitted example_logger example_disk_with_backup
   \<and> m_currentFileSize example_logger + 197 > m_maxFileSize example_logger
   \<and> files (snd (snd (checkRotation 197 example_logger example_disk_with_backup))) ''app.log.bak''
        = Some ''zeroonetwo''
   \<and> files (snd (snd (checkRotation 197 example_logger example_disk_with_backup))) ''app.log'' = Some []
   \<and> m_messageBuffer (fst (snd (checkRotation 197 example_logger example_disk_with_backup))) = []
   \<and> m_currentFileSize (fst (snd (checkRotation 197 example_logger example_disk_with_backup))) = 0
   \<and> fs_calls (snd (snd (checkRotation 197 example_logger example_disk_with_backup)))
        = [CallClose ''app.log'', CallRemove ''app.log.bak'',
           CallRename ''app.log'' ''app.log.bak'', CallOpen ''app.log'' App]
   \<and> m_initialized (example_logger\<lparr>m_maxFileSize := 39\<rparr>)
   \<and> level_value WARNING \<le> level_value (m_currentLevel (example_logger\<lparr>m_maxFileSize := 39\<rparr>))
   \<and> files (snd (log WARNING ''x'' example_clock 0 (example_logger\<lparr>m_maxFileSize := 39\<rparr>)
                     example_disk_with_backup)) ''app.log.bak''
        = Some ''zeroonetwo''
   \<and> on_disk_and_pending
        (fst (log WARNING ''x'' example_clock 0 (example_logger\<lparr>m_maxFileSize := 39\<rparr>)
                example_disk_with_backup))
        (snd (log WARNING ''x'' example_clock 0 (example_logger\<lparr>m_maxFileSize := 39\<rparr>)
                example_disk_with_backup))
        = ''[2024-01-02 03:04:05.567] [WARN ] x'' @ newline"
proof -
  let ?L39 = "example_logger\<lparr>m_maxFileSize := 39\<rparr>"
  have p: "rotation_permitted example_logger example_disk_with_backup"
    and p39: "rotation_permitted ?L39 example_disk_with_backup"
    by (simp_all add: rotation_permitted_def example_logger_fields example_backup_fields)
  have due: "m_currentFileSize example_logger + 197 > m_maxFileSize example_logger"
    by (simp add: example_logger_fields)
  from rotation_sequence [OF p, where n = 197 and level = WARNING and clk = example_clock
         and r = "''x''" and t = 0] due
  have c: "checkRotation 197 example_logger example_disk_with_backup =
       (None,
        example_logger\<lparr>m_messageBuffer := [], m_currentFileSize := 0\<rparr>,
        example_disk_with_backup
          \<lparr>fs_calls := fs_calls example_disk_with_backup @
              [CallClose (m_logFilePath example_logger)] @
              (if files example_disk_with_backup (m_logFilePath example_logger @ ''.bak'') \<noteq> None
               then [CallRemove (m_logFilePath example_logger @ ''.bak'')] else []) @
              [CallRename (m_logFilePath example_logger) (m_logFilePath example_logger @ ''.bak''),
               CallOpen (m_logFilePath example_logger) App],
           files := (files example_disk_with_backup)
              (m_logFilePath example_logger @ ''.bak'' \<mapsto>
                 file_content example_disk_with_backup (m_logFilePath example_logger)
                 @ concat (m_messageBuffer example_logger),
               m_logFilePath example_logger \<mapsto> [])\<rparr>)"
    by blast
  have adm: "m_initialized ?L39 \<and> level_value WARNING \<le> level_value (m_currentLevel ?L39)"
    by (simp add: example_logger_fields)
  have due39: "m_currentFileSize ?L39
       + of_nat (length (spec_line (getTimestamp example_clock TIME_STAMP_BUFFER)
                           (logLevelToString WARNING) (vsnprintf m_bufferSize ''x'')))
       > m_maxFileSize ?L39"
    by (simp add: example_logger_fields example_line_length)
  from rotation_sequence [OF p39, where n = 197 and level = WARNING and clk = example_clock
         and r = "''x''" and t = 0] adm due39
  have l: "files (snd (log WARNING ''x'' example_clock 0 ?L39 example_disk_with_backup))
             (m_logFilePath ?L39 @ ''.bak'')
          = Some (file_content example_disk_with_backup (m_logFilePath ?L39)
                  @ concat (m_messageBuffer ?L39))
        \<and> on_disk_and_pending
            (fst (log WARNING ''x'' example_clock 0 ?L39 example_disk_with_backup))
            (snd (log WARNING ''x'' example_clock 0 ?L39 example_disk_with_backup))
          = spec_line (getTimestamp example_clock TIME_STAMP_BUFFER) (logLevelToString WARNING)
              (vsnprintf m_bufferSize ''x'')"
    by blast
  from p due adm l show ?thesis
    by (simp add: c example_logger_fields example_backup_fields file_content_def example_stamp
          spec_line_def vsnprintf_def m_bufferSize_def BUFFER_SIZE_def)
qed

section \<open>The size counter\<close>

lemma rotateLogFile_thrown:
  "fst (rotateLogFile L w) = exists_error w (m_logFilePath L @ ''.bak'')"
  by (simp add: rotateLogFile_def fs_remove_def fs_rename_def Let_def
        split: prod.splits option.splits)

lemma checkRotation_size:
  "m_currentFileSize (fst (snd (checkRotation n L w))) =
     (if m_currentFileSize L + n > m_maxFileSize L
         \<and> exists_error w (m_logFilePath L @ ''.bak'') = None
      then 0 else m_currentFileSize L)"
  by (simp add: checkRotation_unfold Let_def rotateLogFile_thrown closeLogFile_frame
        closeLogFile_fields write_messages_frame)

text \<open>
  C5. What the code does with the size counter when it stores the line of an admitted
  message: the counter keeps its value, or is zero after a rotation (when asking for the
  backup throws, the rotation is left before the counter is reset). The length of the line
  is not added, because it is read from the string after the string was moved into the
  buffer.
\<close>

theorem size_counter_not_advanced:
  assumes "m_initialized L" and "level_value level \<le> level_value (m_currentLevel L)"
    and "m_logFile L \<noteq> None"
  shows "m_currentFileSize (fst (log level r clk t L w)) =
           (if m_currentFileSize L
                 + of_nat (length (spec_line (getTimestamp clk TIME_STAMP_BUFFER)
                                     (logLevelToString level) (vsnprintf m_bufferSize r)))
               > m_maxFileSize L
               \<and> exists_error w (m_logFilePath L @ ''.bak'') = None
            then 0 else m_currentFileSize L)"
  by (simp add: log_admitted [OF assms(1,2)] store_line_def Let_def
        openLogFile_already_open [OF assms(3)] checkRotation_size flushBuffer_fields)

theorem size_counter_not_advanced_witness:
  "m_initialized started_logger
   \<and> level_value INFO \<le> level_value (m_currentLevel started_logger)
   \<and> m_logFile started_logger \<noteq> None
   \<and> m_currentFileSize started_logger = 52
   \<and> length (on_disk_and_pending started_logger started_world) = 52
   \<and> m_currentFileSize (fst (log INFO ''hello'' example_clock 5 started_logger started_world)) = 52
   \<and> length (on_disk_and_pending
                (fst (log INFO ''hello'' example_clock 5 started_logger started_world))
                (snd (log INFO ''hello'' example_clock 5 started_logger started_world))) = 92"
  using size_counter_not_advanced [of started_logger INFO "''hello''" example_clock 5 started_world]
  by (simp add: started_fields started_stored hello_line_length hello_stored)

section \<open>The time of the last flush\<close>

text \<open>
  C6. What the code does with \<^verbatim>\<open>m_lastFlushTime\<close>: neither \<^verbatim>\<open>flushBuffer\<close> nor
  \<^verbatim>\<open>log\<close> changes it, so it stays the time of the construction, and every admitted
  message logged 1000 ms or more after the construction drains the buffer at once.
\<close>

theorem last_flush_time_never_recorded:
  "m_lastFlushTime (fst (flushBuffer L w)) = m_lastFlushTime L
   \<and> m_lastFlushTime (fst (log level r clk t L w)) = m_lastFlushTime L
   \<and> (m_initialized L \<and> level_value level \<le> level_value (m_currentLevel L)
        \<and> m_logFile L \<noteq> None
        \<and> (t - m_lastFlushTime L) sdiv 1000000 \<ge> FLUSH_INTERVAL_MS \<longrightarrow>
        m_messageBuffer (fst (log level r clk t L w)) = [])"
proof -
  have a: "m_lastFlushTime (fst (log level r clk t L w)) = m_lastFlushTime L"
  proof (cases "m_initialized L \<and> level_value level \<le> level_value (m_currentLevel L)")
    case True
    then show ?thesis by (simp add: log_admitted store_line_lastFlushTime)
  next
    case False
    then have "log level r clk t L w = (L, w)" by (intro log_rejected) auto
    then show ?thesis by simp
  qed
  have b: "m_messageBuffer (fst (log level r clk t L w)) = []"
    if "m_initialized L" "level_value level \<le> level_value (m_currentLevel L)"
       "m_logFile L \<noteq> None" "(t - m_lastFlushTime L) sdiv 1000000 \<ge> FLUSH_INTERVAL_MS"
    using that(4)
    by (simp add: log_admitted [OF that(1,2)] store_line_def Let_def
          openLogFile_already_open [OF that(3)] checkRotation_fields flushBuffer_fields
          checkRotation_thrown_buffer)
  from a b show ?thesis by (simp add: flushBuffer_fields)
qed

theorem last_flush_time_never_recorded_witness:
  "m_initialized (fst after_first)
   \<and> level_value INFO \<le> level_value (m_currentLevel (fst after_first))
   \<and> m_logFile (fst after_first) \<noteq> None
   \<and> m_messageBuffer (fst after_first) = []
   \<and> m_lastFlushTime (fst after_first) = 0
   \<and> (1600000000 - m_lastFlushTime (fst after_first)) sdiv 1000000 \<ge> FLUSH_INTERVAL_MS
   \<and> m_messageBuffer
        (fst (log INFO ''second'' example_clock 1600000000 (fst after_first) (snd after_first))) = []"
  using last_flush_time_never_recorded [of "fst after_first" "snd after_first" INFO "''second''"
          example_clock 1600000000]
  by (simp add: after_first_fields FLUSH_INTERVAL_MS_def signed_divide_int_def)

section \<open>The timestamp\<close>

text \<open>
  C7. What \<^verbatim>\<open>getTimestamp\<close> prints after the seconds: at a clock reading 234 milliseconds
  and 567 microseconds into the second, the field is \<open>567\<close>, the microseconds within the
  millisecond, not the milliseconds \<open>234\<close>.
\<close>

theorem timestamp_prints_microseconds:
  "getTimestamp example_clock TIME_STAMP_BUFFER = ''2024-01-02 03:04:05.567''
   \<and> (time_since_epoch example_clock sdiv 1000000) smod 1000 = 234
   \<and> (time_since_epoch example_clock sdiv 1000) smod 1000 = 567"
  by code_simp

end
